theory Spec2Isabelle
  imports Complex_Main "HOL-Library.AList"
begin

section \<open>JavaScript values used by the chat core\<close>

text \<open>
  Strings are sequences of code units; the development takes code units below 256, so a
  text is a \<open>string\<close>. Numbers that the code uses as counters, token totals and
  millisecond timestamps are integers. A thrown \<open>Error\<close> is a value with the name of its
  class, its message and its \<open>code\<close> property when it has one.
\<close>

datatype js_error = JsError (err_name: string) (err_message: string) (err_code: "string option")

fun startsWith :: "string \<Rightarrow> string \<Rightarrow> bool" where
  "startsWith cs [] = True"
| "startsWith [] (p # ps) = False"
| "startsWith (c # cs) (p # ps) = (if c = p then startsWith cs ps else False)"

text \<open>\<open>text.includes(pat)\<close>: \<open>pat\<close> occurs in \<open>text\<close> as a contiguous run.\<close>

fun includes_js :: "string \<Rightarrow> string \<Rightarrow> bool" where
  "includes_js [] pat = (pat = [])"
| "includes_js (c # cs) pat = (if startsWith (c # cs) pat then True else includes_js cs pat)"

definition toLowerCaseChar :: "char \<Rightarrow> char" where
  "toLowerCaseChar c =
     (let n = (of_char c :: nat)
      in if (65 \<le> n \<and> n \<le> 90) \<or> (192 \<le> n \<and> n \<le> 222 \<and> n \<noteq> 215)
         then char_of (n + 32) else c)"

definition toLowerCase :: "string \<Rightarrow> string" where
  "toLowerCase s = map toLowerCaseChar s"

text \<open>\<open>text.split(sep)\<close> for a one-character separator, and \<open>parts.join(sep)\<close>.\<close>

fun split_js :: "char \<Rightarrow> string \<Rightarrow> string list" where
  "split_js sep [] = [[]]"
| "split_js sep (c # cs) =
     (if c = sep then [] # split_js sep cs
      else (case split_js sep cs of
              [] \<Rightarrow> [[c]]
            | w # ws \<Rightarrow> (c # w) # ws))"

fun join_js :: "string \<Rightarrow> string list \<Rightarrow> string" where
  "join_js sep [] = []"
| "join_js sep [w] = w"
| "join_js sep (w # v # ws) = w @ sep @ join_js sep (v # ws)"

text \<open>\<open>Math.ceil(text.length / 4)\<close>, the token estimate used throughout.\<close>

definition estimateTokens :: "string \<Rightarrow> int" where
  "estimateTokens text = (int (length text) + 3) div 4"

section \<open>Safety service\<close>

text \<open>
  The four prompt-injection patterns are regular expressions built from literal
  characters, \<open>\s+\<close> and \<open>\s*\<close>, all with the flag \<open>i\<close>. A pattern is kept as its
  source text; \<open>parse_re\<close> reads the source into items and \<open>re_test\<close> is
  \<open>pattern.test(text)\<close>: some position of the text starts a match.
\<close>

datatype re_item = Lit "char list" | Space1 | Space0

definition bslash :: char where
  "bslash = CHR 0x5C"

text \<open>
  Under the flag \<open>i\<close> a letter of the pattern matches its lower-case and its upper-case
  form; any other character matches itself. A literal item carries the code units it
  matches.
\<close>

definition caseVariants :: "char \<Rightarrow> char list" where
  "caseVariants c =
     (let n = (of_char c :: nat)
      in if 97 \<le> n \<and> n \<le> 122 then [c, char_of (n - 32)]
         else if 65 \<le> n \<and> n \<le> 90 then [c, char_of (n + 32)]
         else [c])"

fun parse_re :: "string \<Rightarrow> re_item list" where
  "parse_re [] = []"
| "parse_re [c] = [Lit (caseVariants c)]"
| "parse_re [c, d] =
     (if c = bslash then [Lit (caseVariants d)]
      else [Lit (caseVariants c), Lit (caseVariants d)])"
| "parse_re (c # d # e # cs) =
     (if c = bslash then
        (if d = CHR ''s'' \<and> e = CHR ''+'' then Space1 # parse_re cs
         else if d = CHR ''s'' \<and> e = CHR ''*'' then Space0 # parse_re cs
         else Lit (caseVariants d) # parse_re (e # cs))
      else Lit (caseVariants c) # parse_re (d # e # cs))"

text \<open>The code units below 256 that \<open>\s\<close> matches.\<close>

definition whitespace :: "char list" where
  "whitespace = [CHR 0x09, CHR 0x0A, CHR 0x0B, CHR 0x0C, CHR 0x0D, CHR 0x20, CHR 0xA0]"

definition is_space :: "char \<Rightarrow> bool" where
  "is_space c = List.member whitespace c"

text \<open>A match of the items at the start of the text (with backtracking over \<open>\s*\<close>).\<close>

function match_items :: "re_item list \<Rightarrow> string \<Rightarrow> bool" where
  "match_items [] s = True"
| "match_items (Lit vs # ps) [] = False"
| "match_items (Lit vs # ps) (c # cs) =
     (if List.member vs c then match_items ps cs else False)"
| "match_items (Space1 # ps) [] = False"
| "match_items (Space1 # ps) (c # cs) =
     (if is_space c then match_items (Space0 # ps) cs else False)"
| "match_items (Space0 # ps) [] = match_items ps []"
| "match_items (Space0 # ps) (c # cs) =
     (if is_space c
      then (if match_items (Space0 # ps) cs then True else match_items ps (c # cs))
      else match_items ps (c # cs))"
  by pat_completeness auto
termination
  by (relation "measure (\<lambda>(ps, s). length ps + 2 * length s)") auto

fun re_search :: "re_item list \<Rightarrow> string \<Rightarrow> bool" where
  "re_search ps [] = match_items ps []"
| "re_search ps (c # cs) = (if match_items ps (c # cs) then True else re_search ps cs)"

definition re_test :: "string \<Rightarrow> string \<Rightarrow> bool" where
  "re_test source text = re_search (parse_re source) text"

definition promptInjectionPatterns :: "string list" where
  "promptInjectionPatterns =
     [''ignore'' @ [bslash] @ ''s+all'' @ [bslash] @ ''s+previous'' @ [bslash]
        @ ''s+instructions'' @ [bslash] @ ''s+and'',
      ''system'' @ [bslash] @ ''s*:'' @ [bslash] @ ''s*ignore'' @ [bslash] @ ''s+safety'',
      [bslash] @ ''<'' @ [bslash] @ ''|system'' @ [bslash] @ ''|'' @ [bslash] @ ''>''
        @ [bslash] @ ''s*ignore'',
      ''override'' @ [bslash] @ ''s+all'' @ [bslash] @ ''s+safety'' @ [bslash]
        @ ''s+protocols'']"

definition profanityWords :: "string list" where
  "profanityWords = []"

text \<open>\<open>config.safety\<close>: both switches are read from the environment.\<close>

record safety_config =
  enableProfanityFilter :: bool
  enablePromptInjectionDetection :: bool

text \<open>
  The default configuration: an unset environment variable is not the string
  \<open>'true'\<close>, so both switches are off.
\<close>

definition default_safety_config :: safety_config where
  "default_safety_config =
     \<lparr>enableProfanityFilter = False, enablePromptInjectionDetection = False\<rparr>"

text \<open>
  A screen result. Confidences are the numbers \<open>0\<close>, \<open>0.8\<close> and
  \<open>min (0.3 * n) 1\<close>; they are kept as rationals, which order against the threshold
  \<open>0.95\<close> as the doubles of the code do.
\<close>

record check_result =
  flagged :: bool
  flags :: "string list"
  confidence :: rat

record safety_result = check_result +
  profanity :: check_result
  promptInjection :: check_result

definition no_flags :: check_result where
  "no_flags = \<lparr>flagged = False, flags = [], confidence = 0\<rparr>"

definition checkProfanity :: "safety_config \<Rightarrow> string \<Rightarrow> check_result" where
  "checkProfanity cfg text =
     (if \<not> enableProfanityFilter cfg then no_flags
      else
        (let lowerText = toLowerCase text;
             foundWords = filter (\<lambda>word. includes_js lowerText word) profanityWords
         in \<lparr>flagged = (length foundWords > 0),
             flags = map (\<lambda>word. ''profanity:'' @ word) foundWords,
             confidence = (if length foundWords > 0 then 8 / 10 else 0)\<rparr>))"

definition suspiciousPatterns :: "string \<Rightarrow> bool list" where
  "suspiciousPatterns text =
     [if includes_js text ''```''
      then (if includes_js text ''system'' then includes_js text ''ignore all'' else False)
      else False,
      if length (split_js CHR 0x0A text) > 20 then includes_js text ''ignore all previous''
      else False,
      if length text > 2000
      then re_test (''ignore'' @ [bslash] @ ''s+all'' @ [bslash] @ ''s+previous'' @ [bslash]
                      @ ''s+instructions'') text
      else False]"

text \<open>
  (The conjunctions \<open>a && b\<close> of the source are written \<open>if a then b else False\<close>, which
  evaluates \<open>b\<close> only when \<open>a\<close> holds, as the source does.)
\<close>

text \<open>Decimal digits of a count, for the flag \<open>suspicious-structure:n\<close>.\<close>

fun digits10 :: "nat \<Rightarrow> nat \<Rightarrow> string" where
  "digits10 0 n = []"
| "digits10 (Suc fuel) n =
     (if n < 10 then [char_of (48 + n)]
      else digits10 fuel (n div 10) @ [char_of (48 + n mod 10)])"

definition show_nat :: "nat \<Rightarrow> string" where
  "show_nat n = digits10 (Suc n) n"

definition checkPromptInjection :: "safety_config \<Rightarrow> string \<Rightarrow> check_result" where
  "checkPromptInjection cfg text =
     (if \<not> enablePromptInjectionDetection cfg then no_flags
      else
        (let patternFlags =
               map (\<lambda>source. ''prompt-injection:'' @ take 20 source)
                 (filter (\<lambda>source. re_test source text) promptInjectionPatterns);
             suspiciousCount = length (filter (\<lambda>b. b) (suspiciousPatterns text));
             allFlags =
               (if suspiciousCount > 1
                then patternFlags @ [''suspicious-structure:'' @ show_nat suspiciousCount]
                else patternFlags)
         in \<lparr>flagged = (length allFlags > 0),
             flags = allFlags,
             confidence = min (of_nat (length allFlags) * (3 / 10)) 1\<rparr>))"

definition checkContentSafety :: "safety_config \<Rightarrow> string \<Rightarrow> safety_result" where
  "checkContentSafety cfg text =
     (if length text < 500 \<and> \<not> includes_js text ''system'' \<and> \<not> includes_js text ''ignore''
      then \<lparr>flagged = False, flags = [], confidence = 0,
            profanity = no_flags, promptInjection = no_flags\<rparr>
      else
        (let profanityCheck = checkProfanity cfg text;
             injectionCheck = checkPromptInjection cfg text
         in \<lparr>flagged = (flagged profanityCheck \<or> flagged injectionCheck),
             flags = flags profanityCheck @ flags injectionCheck,
             confidence = max (confidence profanityCheck) (confidence injectionCheck),
             profanity = profanityCheck,
             promptInjection = injectionCheck\<rparr>))"

section \<open>Rate limiter\<close>

text \<open>
  The limiter keeps one \<open>Map\<close> for both budgets: a request key holds an array of
  timestamps, a token key holds an object \<open>{count, resetTime}\<close>. The map is an
  association list in insertion order (\<open>Map.set\<close> of a present key keeps its place).
  When a shared store is configured the limiter sends it commands instead; the store is
  an external collaborator, so the theory records the commands that were queued and takes
  what the store answers from the environment of the call.
\<close>

datatype store_value = Requests "int list" | TokenData int int

datatype redis_cmd =
    ZRemRangeByScore string int int
  | ZCard string
  | ZAdd string int string
  | Expire string int
  | Get string
  | SetEx string int int

record limiter =
  redisClient :: bool
  inMemoryStore :: "(string \<times> store_value) list"
  redisLog :: "redis_cmd list"

text \<open>
  What one check reads from outside: whether \<open>Math.random() < 0.01\<close> held (the
  compaction draw), the text of \<open>Math.random()\<close> used in the sorted-set member, what
  \<open>pipeline.exec()\<close> gave (an error, or the number read from the reply, \<open>None\<close> when
  that position holds no number), and whether \<open>setEx\<close> failed.
\<close>

record limiter_env =
  cleanupDraw :: bool
  randomText :: string
  execReply :: "js_error + int option"
  setExError :: "js_error option"

text \<open>
  A decision object. A property that the object lacks, or that is \<open>NaN\<close> or
  \<open>undefined\<close>, is \<open>None\<close>.
\<close>

record decision =
  allowed :: bool
  remaining :: "int option"
  resetTime :: "int option"
  total :: "int option"
  current :: "int option"

text \<open>\<open>Math.ceil(a / b)\<close> for a positive divisor.\<close>

definition ceil_div :: "int \<Rightarrow> int \<Rightarrow> int" where
  "ceil_div a b = - ((- a) div b)"

definition typeError :: "string \<Rightarrow> js_error" where
  "typeError msg = JsError ''TypeError'' msg None"

text \<open>
  \<open>_cleanupInMemoryStore\<close>: on the draw, every entry is filtered with
  \<open>requests.filter\<close>; an entry that is a token object has no \<open>filter\<close>, and the loop
  stops there with a \<open>TypeError\<close>, the entries before it already compacted.
\<close>

fun cleanup_loop ::
  "int \<Rightarrow> (string \<times> store_value) list \<Rightarrow> (string \<times> store_value) list
     \<Rightarrow> (string \<times> store_value) list \<times> js_error option" where
  "cleanup_loop windowStart [] st = (st, None)"
| "cleanup_loop windowStart ((k, Requests requests) # es) st =
     (let validRequests = filter (\<lambda>timestamp. timestamp > windowStart) requests
      in if length validRequests = 0
         then cleanup_loop windowStart es (AList.delete k st)
         else cleanup_loop windowStart es (AList.update k (Requests validRequests) st))"
| "cleanup_loop windowStart ((k, TokenData c r) # es) st =
     (st, Some (typeError ''requests.filter is not a function''))"

definition cleanupInMemoryStore ::
  "limiter_env \<Rightarrow> int \<Rightarrow> (string \<times> store_value) list
     \<Rightarrow> (string \<times> store_value) list \<times> js_error option" where
  "cleanupInMemoryStore env windowStart st =
     (if cleanupDraw env then cleanup_loop windowStart st st else (st, None))"

definition request_decision :: "int \<Rightarrow> int \<Rightarrow> int \<Rightarrow> int option \<Rightarrow> decision" where
  "request_decision windowStart now maxRequests currentCount =
     \<lparr>allowed = (case currentCount of None \<Rightarrow> False | Some n \<Rightarrow> n \<le> maxRequests),
      remaining = (case currentCount of None \<Rightarrow> None | Some n \<Rightarrow> Some (max 0 (maxRequests - n))),
      resetTime =
        Some (now + (windowStart + (if maxRequests > 0 then ceil_div windowStart maxRequests else 0))),
      total = Some maxRequests,
      current = currentCount\<rparr>"

definition checkInMemoryRateLimit ::
  "limiter_env \<Rightarrow> limiter \<Rightarrow> string \<Rightarrow> int \<Rightarrow> int \<Rightarrow> int
     \<Rightarrow> limiter \<times> (js_error + decision)" where
  "checkInMemoryRateLimit env rl key windowStart now maxRequests =
     (case cleanupInMemoryStore env windowStart (inMemoryStore rl) of
        (st1, Some e) \<Rightarrow> (rl\<lparr>inMemoryStore := st1\<rparr>, Inl e)
      | (st1, None) \<Rightarrow>
          (let st2 = (if map_of st1 key = None then AList.update key (Requests []) st1 else st1)
           in case map_of st2 key of
                Some (Requests requests) \<Rightarrow>
                  (let validRequests =
                         filter (\<lambda>timestamp. timestamp > windowStart) requests @ [now];
                       st3 = AList.update key (Requests validRequests) st2
                   in (rl\<lparr>inMemoryStore := st3\<rparr>,
                       Inr (request_decision windowStart now maxRequests
                              (Some (int (length validRequests))))))
              | _ \<Rightarrow>
                  (rl\<lparr>inMemoryStore := st2\<rparr>,
                   Inl (typeError ''requests.filter is not a function''))))"

text \<open>
  \<open>_checkRedisRateLimit\<close>: the pipeline trims, counts, adds the current request and
  sets the expiry, whatever the decision will be; the count is the reply plus one.
\<close>

definition checkRedisRateLimit ::
  "limiter_env \<Rightarrow> limiter \<Rightarrow> string \<Rightarrow> int \<Rightarrow> int \<Rightarrow> int
     \<Rightarrow> limiter \<times> (js_error + decision)" where
  "checkRedisRateLimit env rl key windowStart now maxRequests =
     (let pipeline =
            [ZRemRangeByScore key 0 windowStart,
             ZCard key,
             ZAdd key now (randomText env),
             Expire key (ceil_div (now - windowStart) 1000)];
          rl1 = rl\<lparr>redisLog := redisLog rl @ pipeline\<rparr>
      in case execReply env of
           Inl e \<Rightarrow> (rl1, Inl e)
         | Inr reply \<Rightarrow>
             (rl1,
              Inr (request_decision windowStart now maxRequests
                     (case reply of None \<Rightarrow> None | Some n \<Rightarrow> Some (n + 1)))))"

text \<open>
  \<open>checkRateLimit\<close>: the body of the \<open>try\<close> picks the backend; any error it raises is
  caught and the request is let through.
\<close>

definition checkRateLimit_try ::
  "limiter_env \<Rightarrow> int \<Rightarrow> limiter \<Rightarrow> string \<Rightarrow> int \<Rightarrow> int
     \<Rightarrow> limiter \<times> (js_error + decision)" where
  "checkRateLimit_try env now rl key windowMs maxRequests =
     (let windowStart = now - windowMs
      in if redisClient rl
         then checkRedisRateLimit env rl key windowStart now maxRequests
         else checkInMemoryRateLimit env rl key windowStart now maxRequests)"

definition checkRateLimit ::
  "limiter_env \<Rightarrow> int \<Rightarrow> limiter \<Rightarrow> string \<Rightarrow> int \<Rightarrow> int \<Rightarrow> limiter \<times> decision" where
  "checkRateLimit env now rl key windowMs maxRequests =
     (case checkRateLimit_try env now rl key windowMs maxRequests of
           (rl1, Inr d) \<Rightarrow> (rl1, d)
         | (rl1, Inl e) \<Rightarrow>
             (rl1,
              \<lparr>allowed = True, remaining = Some maxRequests, resetTime = Some (now + windowMs),
               total = None, current = None\<rparr>))"

definition token_decision :: "bool \<Rightarrow> int option \<Rightarrow> int option \<Rightarrow> int \<Rightarrow> decision" where
  "token_decision ok newTotal reset maxTokens =
     \<lparr>allowed = ok,
      remaining = (case newTotal of None \<Rightarrow> None | Some n \<Rightarrow> Some (max 0 (maxTokens - n))),
      resetTime = reset,
      total = Some maxTokens,
      current = newTotal\<rparr>"

definition checkRedisTokenLimit ::
  "limiter_env \<Rightarrow> limiter \<Rightarrow> string \<Rightarrow> int \<Rightarrow> int \<Rightarrow> int \<Rightarrow> int
     \<Rightarrow> limiter \<times> (js_error + decision)" where
  "checkRedisTokenLimit env rl key windowStart now tokens maxTokens =
     (let rl1 = rl\<lparr>redisLog := redisLog rl @ [Get (key @ '':count'')]\<rparr>
      in case execReply env of
           Inl e \<Rightarrow> (rl1, Inl e)
         | Inr reply \<Rightarrow>
             (let currentTokens = (case reply of None \<Rightarrow> 0 | Some n \<Rightarrow> n);
                  newTotal = currentTokens + tokens;
                  ok = (newTotal \<le> maxTokens);
                  d = token_decision ok (Some newTotal) (Some (now + windowStart)) maxTokens
              in if ok then
                   (let rl2 = rl1\<lparr>redisLog := redisLog rl1 @
                                 [SetEx (key @ '':count'') (ceil_div windowStart 1000) newTotal]\<rparr>
                    in case setExError env of
                         Some e \<Rightarrow> (rl2, Inl e)
                       | None \<Rightarrow> (rl2, Inr d))
                 else (rl1, Inr d)))"

text \<open>
  \<open>_checkInMemoryTokenLimit\<close>: the token object is charged only when the charge is
  allowed. An array found under the token key has no \<open>count\<close>: the sum is \<open>NaN\<close> and
  the charge is refused.
\<close>

definition checkInMemoryTokenLimit ::
  "limiter \<Rightarrow> string \<Rightarrow> int \<Rightarrow> int \<Rightarrow> int \<Rightarrow> int \<Rightarrow> limiter \<times> (js_error + decision)" where
  "checkInMemoryTokenLimit rl key windowStart now tokens maxTokens =
     (let tokenKey = key @ '':tokens'';
          st0 = inMemoryStore rl;
          st1 = (if map_of st0 tokenKey = None
                 then AList.update tokenKey (TokenData 0 (now + windowStart)) st0 else st0)
      in case map_of st1 tokenKey of
           Some (TokenData count0 reset0) \<Rightarrow>
             (let count1 = (if now > reset0 then 0 else count0);
                  reset1 = (if now > reset0 then now + windowStart else reset0);
                  newTotal = count1 + tokens;
                  ok = (newTotal \<le> maxTokens);
                  st2 = AList.update tokenKey
                          (TokenData (if ok then newTotal else count1) reset1) st1
              in (rl\<lparr>inMemoryStore := st2\<rparr>,
                  Inr (token_decision ok (Some newTotal) (Some reset1) maxTokens)))
         | _ \<Rightarrow>
             (rl\<lparr>inMemoryStore := st1\<rparr>, Inr (token_decision False None None maxTokens)))"

definition checkTokenRateLimit_try ::
  "limiter_env \<Rightarrow> int \<Rightarrow> limiter \<Rightarrow> string \<Rightarrow> int \<Rightarrow> int \<Rightarrow> int
     \<Rightarrow> limiter \<times> (js_error + decision)" where
  "checkTokenRateLimit_try env now rl userId tokens windowMs maxTokens =
     (let key = ''tokens:'' @ userId;
          windowStart = now - windowMs
      in if redisClient rl
         then checkRedisTokenLimit env rl key windowStart now tokens maxTokens
         else checkInMemoryTokenLimit rl key windowStart now tokens maxTokens)"

definition checkTokenRateLimit ::
  "limiter_env \<Rightarrow> int \<Rightarrow> limiter \<Rightarrow> string \<Rightarrow> int \<Rightarrow> int \<Rightarrow> int \<Rightarrow> limiter \<times> decision" where
  "checkTokenRateLimit env now rl userId tokens windowMs maxTokens =
     (case checkTokenRateLimit_try env now rl userId tokens windowMs maxTokens of
           (rl1, Inr d) \<Rightarrow> (rl1, d)
         | (rl1, Inl e) \<Rightarrow>
             (rl1,
              \<lparr>allowed = True, remaining = Some maxTokens, resetTime = Some (now + windowMs),
               total = None, current = None\<rparr>))"

text \<open>The timestamps held for a request key (none when the key is absent).\<close>

definition storedRequests :: "(string \<times> store_value) list \<Rightarrow> string \<Rightarrow> int list" where
  "storedRequests st k = (case map_of st k of Some (Requests ts) \<Rightarrow> ts | _ \<Rightarrow> [])"

section \<open>User model\<close>

record user_doc =
  u_id :: string
  usage_totalTokens :: int
  usage_totalRequests :: int
  usage_lastRequestAt :: "int option"
  quotas_dailyTokenLimit :: int
  quotas_dailyRequestLimit :: int
  quotas_resetDate :: int

text \<open>
  \<open>date.toDateString()\<close> names the local calendar day of an instant. The zone is a
  function that gives the offset from UTC, in milliseconds, in force at an instant; the
  day is then identified by its number.
\<close>

definition toDateString :: "(int \<Rightarrow> int) \<Rightarrow> int \<Rightarrow> int" where
  "toDateString zone t = (t + zone t) div 86400000"

definition checkAndResetQuotas :: "(int \<Rightarrow> int) \<Rightarrow> int \<Rightarrow> user_doc \<Rightarrow> user_doc" where
  "checkAndResetQuotas zone now u =
     (if toDateString zone now \<noteq> toDateString zone (quotas_resetDate u)
      then u\<lparr>usage_totalTokens := 0, usage_totalRequests := 0, quotas_resetDate := now\<rparr>
      else u)"

definition hasExceededQuotas :: "(int \<Rightarrow> int) \<Rightarrow> int \<Rightarrow> user_doc \<Rightarrow> user_doc \<times> bool" where
  "hasExceededQuotas zone now u =
     (let u1 = checkAndResetQuotas zone now u
      in (u1, usage_totalTokens u1 \<ge> quotas_dailyTokenLimit u1 \<or>
              usage_totalRequests u1 \<ge> quotas_dailyRequestLimit u1))"

definition updateUsage :: "(int \<Rightarrow> int) \<Rightarrow> int \<Rightarrow> int \<Rightarrow> user_doc \<Rightarrow> user_doc" where
  "updateUsage zone now tokens u =
     (let u1 = checkAndResetQuotas zone now u
      in u1\<lparr>usage_totalTokens := usage_totalTokens u1 + tokens,
             usage_totalRequests := usage_totalRequests u1 + 1,
             usage_lastRequestAt := Some now\<rparr>)"

section \<open>Session model\<close>

record session_doc =
  sessionId :: string
  s_userId :: string
  title :: string
  s_provider :: string
  s_model :: string
  systemPrompt :: string
  ctx_totalTokens :: int
  ctx_messageCount :: int
  ctx_lastSummarizedAt :: "int option"
  ctx_summaryHash :: "string option"
  isActive :: bool
  lastActivityAt :: int

definition updateContext :: "int \<Rightarrow> int \<Rightarrow> int \<Rightarrow> session_doc \<Rightarrow> session_doc" where
  "updateContext now tokenDelta messageDelta s =
     s\<lparr>ctx_totalTokens := ctx_totalTokens s + tokenDelta,
       ctx_messageCount := ctx_messageCount s + messageDelta,
       lastActivityAt := now\<rparr>"

definition needsSummarization :: "int \<Rightarrow> session_doc \<Rightarrow> bool" where
  "needsSummarization summarizationThreshold s = (ctx_totalTokens s > summarizationThreshold)"

definition generateTitle :: "string \<Rightarrow> session_doc \<Rightarrow> session_doc" where
  "generateTitle firstMessage s =
     (if length firstMessage > 0
      then (let t = take 50 firstMessage
            in s\<lparr>title := (if length t < length firstMessage then t @ ''...'' else t)\<rparr>)
      else s)"

section \<open>Message model\<close>

datatype msg_role = RUser | RAssistant | RSystem | RSummary

datatype msg_status = Pending | Streaming | Completed | Failed | Cancelled

record usage_doc =
  promptTokens :: int
  completionTokens :: int
  totalTokens :: int

record error_doc =
  e_message :: string
  e_code :: string
  e_retryable :: "bool option"

record message_doc =
  m_id :: nat
  m_sessionId :: string
  m_userId :: "string option"
  m_role :: msg_role
  m_content :: string
  md_provider :: "string option"
  md_model :: "string option"
  md_tokenCount :: int
  md_usage :: "usage_doc option"
  md_responseTime :: "int option"
  md_isStreaming :: bool
  md_streamingComplete :: bool
  m_status :: msg_status
  m_error :: "error_doc option"
  createdAt :: int

definition role_name :: "msg_role \<Rightarrow> string" where
  "role_name r =
     (case r of RUser \<Rightarrow> ''user'' | RAssistant \<Rightarrow> ''assistant''
              | RSystem \<Rightarrow> ''system'' | RSummary \<Rightarrow> ''summary'')"

text \<open>The \<open>pre('save')\<close> hook of the schema: a message without a count gets the estimate.\<close>

definition preSave :: "message_doc \<Rightarrow> message_doc" where
  "preSave m =
     (if md_tokenCount m = 0 \<and> m_content m \<noteq> []
      then m\<lparr>md_tokenCount := estimateTokens (m_content m)\<rparr> else m)"

section \<open>Document store\<close>

text \<open>
  The three collections. The schema marks \<open>sessionId\<close>, \<open>userId\<close>, \<open>role\<close> and
  \<open>content\<close> of a message as \<open>required\<close>, and the object mapper validates a document
  on every \<open>save\<close> and \<open>create\<close>: a required string must not be empty, a required
  reference must be present. The role of a document of the theory is always present.
  The error names the failing paths in the order of the schema. Each \<open>findOne\<close> yields
  a copy of the stored document; \<open>save\<close> on a copy writes the paths that the holder of
  the copy changed.
\<close>

record db =
  users :: "user_doc list"
  sessions :: "session_doc list"
  messages :: "message_doc list"
  nextId :: nat

definition validationError :: "string list \<Rightarrow> js_error" where
  "validationError paths =
     JsError ''ValidationError''
       (''Message validation failed: '' @
        join_js '', '' (map (\<lambda>path. path @ '': Path `'' @ path @ ''` is required.'') paths))
       None"

definition missingPaths :: "message_doc \<Rightarrow> string list" where
  "missingPaths m =
     (if m_sessionId m = [] then [''sessionId''] else []) @
     (if m_userId m = None then [''userId''] else []) @
     (if m_content m = [] then [''content''] else [])"

definition validateMessageDoc :: "message_doc \<Rightarrow> js_error option" where
  "validateMessageDoc m =
     (if missingPaths m = [] then None else Some (validationError (missingPaths m)))"

text \<open>Saving a new message: validation, the hook, then the insert with a fresh id.\<close>

definition insertMessage :: "int \<Rightarrow> db \<Rightarrow> message_doc \<Rightarrow> js_error + (db \<times> message_doc)" where
  "insertMessage now d m =
     (case validateMessageDoc m of
        Some e \<Rightarrow> Inl e
      | None \<Rightarrow>
          (let m1 = (preSave m)\<lparr>m_id := nextId d, createdAt := now\<rparr>
           in Inr (d\<lparr>messages := messages d @ [m1], nextId := nextId d + 1\<rparr>, m1)))"

text \<open>Saving a message that is already stored.\<close>

definition saveMessage :: "db \<Rightarrow> message_doc \<Rightarrow> js_error + (db \<times> message_doc)" where
  "saveMessage d m =
     (case validateMessageDoc m of
        Some e \<Rightarrow> Inl e
      | None \<Rightarrow>
          (let m1 = preSave m
           in Inr (d\<lparr>messages := map (\<lambda>x. if m_id x = m_id m1 then m1 else x) (messages d)\<rparr>,
                   m1)))"

text \<open>
  Ids of stored messages are unique and below the next id to be given out, as ids
  generated by the store are.
\<close>

definition storeOk :: "db \<Rightarrow> bool" where
  "storeOk d =
     (distinct (map m_id (messages d)) \<and> list_all (\<lambda>m. m_id m < nextId d) (messages d))"

definition findUserById :: "db \<Rightarrow> string \<Rightarrow> user_doc option" where
  "findUserById d uid = find (\<lambda>u. u_id u = uid) (users d)"

definition saveUser :: "db \<Rightarrow> user_doc \<Rightarrow> db" where
  "saveUser d u = d\<lparr>users := map (\<lambda>x. if u_id x = u_id u then u else x) (users d)\<rparr>"

definition findActiveSession :: "db \<Rightarrow> string \<Rightarrow> session_doc option" where
  "findActiveSession d sid = find (\<lambda>s. sessionId s = sid \<and> isActive s) (sessions d)"

definition findActiveSessionOfUser :: "db \<Rightarrow> string \<Rightarrow> string \<Rightarrow> session_doc option" where
  "findActiveSessionOfUser d sid uid =
     find (\<lambda>s. sessionId s = sid \<and> s_userId s = uid \<and> isActive s) (sessions d)"

text \<open>\<open>session.save()\<close>: the changes \<open>f\<close> made on the copy are written to the stored session.\<close>

definition updateSession :: "db \<Rightarrow> string \<Rightarrow> (session_doc \<Rightarrow> session_doc) \<Rightarrow> db" where
  "updateSession d sid f =
     d\<lparr>sessions := map (\<lambda>s. if sessionId s = sid then f s else s) (sessions d)\<rparr>"

definition sessionMessages :: "db \<Rightarrow> string \<Rightarrow> message_doc list" where
  "sessionMessages d sid = filter (\<lambda>m. m_sessionId m = sid) (messages d)"

text \<open>\<open>Message.getConversationHistory\<close>: ascending \<open>createdAt\<close>, at most 50.\<close>

definition getConversationHistory :: "db \<Rightarrow> string \<Rightarrow> message_doc list" where
  "getConversationHistory d sid = take 50 (sort_key createdAt (sessionMessages d sid))"

definition getMessagesForSummarization :: "db \<Rightarrow> string \<Rightarrow> int \<Rightarrow> message_doc list" where
  "getMessagesForSummarization d sid beforeDate =
     sort_key createdAt
       (filter (\<lambda>m. (m_role m = RUser \<or> m_role m = RAssistant) \<and> createdAt m < beforeDate)
          (sessionMessages d sid))"

text \<open>
  \<open>Message.replaceWithSummary\<close>: the messages are deleted first, then the summary is
  created. Its \<open>userId\<close> is read as \<open>messageIds[0]?.userId\<close>; an id has no such
  property, so the summary document carries no \<open>userId\<close>. The result keeps the store
  as the deletion left it also when the creation is rejected.
\<close>

definition replaceWithSummary ::
  "int \<Rightarrow> db \<Rightarrow> string \<Rightarrow> nat list \<Rightarrow> string \<Rightarrow> db \<times> (js_error + message_doc)" where
  "replaceWithSummary now d sid messageIds summaryContent =
     (let d1 = d\<lparr>messages :=
                   filter (\<lambda>m. \<not> (m_sessionId m = sid \<and> m_id m \<in> set messageIds)) (messages d)\<rparr>
      in case insertMessage now d1
                \<lparr>m_id = 0, m_sessionId = sid, m_userId = None, m_role = RSummary,
                 m_content = summaryContent, md_provider = None, md_model = None,
                 md_tokenCount = estimateTokens summaryContent, md_usage = None,
                 md_responseTime = None, md_isStreaming = False, md_streamingComplete = True,
                 m_status = Completed, m_error = None, createdAt = now\<rparr> of
           Inl e \<Rightarrow> (d1, Inl e)
         | Inr (d2, summary) \<Rightarrow> (d2, Inr summary))"

section \<open>Safe responses\<close>

definition categorizeError :: "js_error \<Rightarrow> string" where
  "categorizeError e =
     (let message = toLowerCase (err_message e)
      in if includes_js message ''profanity'' \<or> includes_js message ''inappropriate''
           then ''profanity''
         else if includes_js message ''injection'' \<or> includes_js message ''instruction''
           then ''prompt-injection''
         else if includes_js message ''rate limit'' \<or> includes_js message ''too many''
           then ''rate-limit''
         else if includes_js message ''validation'' \<or> includes_js message ''invalid''
           then ''validation''
         else if includes_js message ''quota'' \<or> includes_js message ''limit exceeded''
           then ''quota-exceeded''
         else if includes_js message ''api'' \<or> includes_js message ''provider''
           then ''provider-error''
         else ''default'')"

definition safeResponses :: "(string \<times> string) list" where
  "safeResponses =
     [(''profanity'', ''I notice your message contains inappropriate language. Please rephrase your question respectfully.''),
      (''prompt-injection'', ''I detected an attempt to modify my instructions. Please ask your question directly.''),
      (''rate-limit'', ''You've reached the rate limit. Please wait before sending another message.''),
      (''validation'', ''Your message format is invalid. Please check your input and try again.''),
      (''provider-error'', ''I'm experiencing technical difficulties. Please try again in a moment.''),
      (''quota-exceeded'', ''You've reached your usage quota. Please try again later or upgrade your plan.''),
      (''default'', ''I'm sorry, but I can't process your request right now. Please try rephrasing or contact support.'')]"

record safe_response =
  sr_text :: string
  sr_errorType :: string
  sr_retryable :: bool

definition generateSafeResponse :: "js_error \<Rightarrow> safe_response" where
  "generateSafeResponse e =
     (let errorType = categorizeError e
      in \<lparr>sr_text = (case map_of safeResponses errorType of
                       Some t \<Rightarrow> t
                     | None \<Rightarrow> the (map_of safeResponses ''default'')),
          sr_errorType = errorType,
          sr_retryable = (errorType \<in> set [''provider-error'', ''rate-limit''])\<rparr>)"

section \<open>Provider adapters\<close>

text \<open>
  An adapter sees the context messages (role and content) and the system prompt. Its
  non-streaming call returns a result or throws. Its streaming call delivers tokens to
  \<open>onToken\<close> and then ends in one of four ways: \<open>onDone\<close> is called with a result;
  \<open>onError\<close> is called and the call returns; the call throws; or \<open>onError\<close> is called
  and the call then throws the same error, which is what the \<open>catch\<close> of every adapter
  of the repository does.
\<close>

type_synonym ctx_message = "msg_role \<times> string"

record gen_result =
  r_text :: string
  r_usage :: "usage_doc option"
  r_id :: string
  r_model :: string

datatype stream_outcome =
    StreamDone "string list" gen_result
  | StreamOnError "string list" js_error
  | StreamThrown "string list" js_error
  | StreamOnErrorThrown "string list" js_error

record adapter =
  a_name :: string
  testConnection :: bool
  generateResponse :: "ctx_message list \<Rightarrow> string \<Rightarrow> js_error + gen_result"
  streamResponse :: "ctx_message list \<Rightarrow> string \<Rightarrow> stream_outcome"

subsection \<open>The mock adapter\<close>

definition mockStreamResponses :: "string list" where
  "mockStreamResponses =
     [''Hello! I'm your AI assistant. I can help you with questions, provide information, assist with coding, writing, analysis, and much more. What would you like to know?'',
      ''I'm here to help! I can assist with a wide variety of tasks including answering questions, explaining concepts, helping with code, creative writing, problem-solving, and general conversation. How can I assist you today?'',
      ''Great question! I'm an AI assistant designed to be helpful, harmless, and honest. I can help with research, writing, coding, math, creative tasks, and general conversation. What specific topic would you like to explore?'',
      ''I'd be happy to help! As an AI assistant, I can provide information, answer questions, help with analysis, assist with creative tasks, explain complex topics, and engage in meaningful conversation. What can I help you with?'',
      ''Thank you for your message! I'm an AI assistant capable of helping with various tasks like answering questions, providing explanations, assisting with code and technical issues, creative writing, problem-solving, and more. How may I assist you today?'']"

definition mock_usage :: "ctx_message list \<Rightarrow> string \<Rightarrow> int \<Rightarrow> usage_doc" where
  "mock_usage msgs sysPrompt completion =
     (let prompt = estimateTokens (join_js '' '' (map snd msgs) @ sysPrompt)
      in \<lparr>promptTokens = prompt, completionTokens = completion,
          totalTokens = prompt + completion\<rparr>)"

text \<open>
  \<open>streamResponse\<close> of the mock: one of the five texts, chosen by the draw
  \<open>Math.floor(Math.random() * 5)\<close>, is cut at the spaces; every word but the first is
  sent with its leading space; \<open>onDone\<close> then receives the whole text.
\<close>

definition mock_streamResponse :: "nat \<Rightarrow> string \<Rightarrow> ctx_message list \<Rightarrow> string \<Rightarrow> stream_outcome" where
  "mock_streamResponse draw uuid msgs sysPrompt =
     (let selectedResponse = mockStreamResponses ! (draw mod 5);
          tokens = (case split_js CHR '' '' selectedResponse of
                      [] \<Rightarrow> []
                    | w # ws \<Rightarrow> w # map (\<lambda>v. '' '' @ v) ws)
      in StreamDone tokens
           \<lparr>r_text = selectedResponse,
            r_usage = Some (mock_usage msgs sysPrompt (int (length tokens))),
            r_id = uuid, r_model = ''mock-model-v1''\<rparr>)"

text \<open>
  Reading an identifier that no enclosing scope binds throws a \<open>ReferenceError\<close>. A scope
  is given here by the identifiers it binds to arrays of strings.
\<close>

definition lookup_identifier :: "(string \<times> string list) list \<Rightarrow> string \<Rightarrow> js_error + string list" where
  "lookup_identifier scope ident =
     (case map_of scope ident of
        None \<Rightarrow> Inl (JsError ''ReferenceError'' (ident @ '' is not defined'') None)
      | Some v \<Rightarrow> Inr v)"

text \<open>
  \<open>generateResponse\<close> of the mock. The chain of \<open>if\<close>s assigns one of five fixed texts,
  or in the last \<open>else\<close> one of three texts built from the input, to \<open>response\<close>;
  \<open>response\<close> is not read afterwards, so only the number of the branch is kept. The array
  \<open>mockResponses\<close> is declared with \<open>const\<close> inside that last \<open>else\<close> block. The next
  statement, at the level of the function body, reads \<open>mockResponses\<close> again to choose
  \<open>selectedResponse\<close>; the scope of the function body binds no array of that name.
\<close>

definition mock_response_branch :: "string \<Rightarrow> nat" where
  "mock_response_branch userInput =
     (if includes_js userInput ''hello'' \<or> includes_js userInput ''hi''
           \<or> includes_js userInput ''hey'' then 0
      else if includes_js userInput ''help'' \<or> includes_js userInput ''what can you do'' then 1
      else if includes_js userInput ''code'' \<or> includes_js userInput ''programming''
           \<or> includes_js userInput ''javascript'' \<or> includes_js userInput ''python'' then 2
      else if includes_js userInput ''write'' \<or> includes_js userInput ''essay''
           \<or> includes_js userInput ''article'' then 3
      else if includes_js userInput ''explain'' \<or> includes_js userInput ''what is''
           \<or> includes_js userInput ''how does'' then 4
      else 5)"

definition generateResponse_body_scope :: "(string \<times> string list) list" where
  "generateResponse_body_scope = []"

definition mock_generateResponse ::
  "nat \<Rightarrow> string \<Rightarrow> ctx_message list \<Rightarrow> string \<Rightarrow> js_error + gen_result" where
  "mock_generateResponse draw uuid msgs sysPrompt =
     (let userMessages = filter (\<lambda>m. fst m = RUser) msgs;
          userInput = (if userMessages = [] then [] else toLowerCase (snd (last userMessages)));
          response = mock_response_branch userInput
      in case lookup_identifier generateResponse_body_scope ''mockResponses'' of
           Inl e \<Rightarrow> Inl e
         | Inr mockResponses \<Rightarrow>
             (let selectedResponse =
                    (if mockResponses = [] then []
                     else mockResponses ! (draw mod length mockResponses))
              in Inr \<lparr>r_text = selectedResponse,
                      r_usage = Some (mock_usage msgs sysPrompt (estimateTokens selectedResponse)),
                      r_id = uuid, r_model = ''mock-model-v1''\<rparr>))"

definition mockProvider :: "nat \<Rightarrow> string \<Rightarrow> adapter" where
  "mockProvider draw uuid =
     \<lparr>a_name = ''mock'', testConnection = True,
      generateResponse = mock_generateResponse draw uuid,
      streamResponse = mock_streamResponse draw uuid\<rparr>"

subsection \<open>Provider manager\<close>

record providerManager =
  providers :: "(string \<times> adapter) list"
  defaultProvider :: string

definition getProvider :: "providerManager \<Rightarrow> string \<Rightarrow> js_error + adapter" where
  "getProvider pm requested =
     (let wanted = (if requested = [] then defaultProvider pm else requested)
      in case map_of (providers pm) wanted of
           None \<Rightarrow> Inl (JsError ''Error''
                          (''Provider '' @ [CHR 0x27] @ wanted @ [CHR 0x27] @ '' not found or not configured'')
                          None)
         | Some p \<Rightarrow> Inr p)"

text \<open>\<open>getWorkingProvider\<close>: the first candidate that is registered and passes its test.\<close>

fun firstWorking :: "providerManager \<Rightarrow> string list \<Rightarrow> adapter option" where
  "firstWorking pm [] = None"
| "firstWorking pm (providerName # rest) =
     (case getProvider pm providerName of
        Inl e \<Rightarrow> firstWorking pm rest
      | Inr p \<Rightarrow> if testConnection p then Some p else firstWorking pm rest)"

definition getWorkingProvider :: "providerManager \<Rightarrow> string \<Rightarrow> js_error + adapter" where
  "getWorkingProvider pm preferredProvider =
     (case firstWorking pm
             (filter (\<lambda>n. n \<noteq> []) [preferredProvider, defaultProvider pm, ''mock'']) of
        Some p \<Rightarrow> Inr p
      | None \<Rightarrow> getProvider pm ''mock'')"

section \<open>Context manager\<close>

text \<open>
  What the core reads from outside during one request: the clock (read once), the local
  time zone, the digest function, the stored summarisation prompt if there is one, the
  configuration values, the provider manager, the check of the \<open>uuid\<close> format, and what
  the limiter reads. The time zone is given by two functions, both in milliseconds:
  \<open>zone t\<close> is the offset of local time from UTC at the instant \<open>t\<close>; \<open>zoneAtLocal t\<close> is
  the offset that the zone assigns to the local time value \<open>t\<close>, which \<open>Date\<close> uses to
  turn a local time back into an instant.
\<close>

record core_env =
  clock :: int
  zone :: "int \<Rightarrow> int"
  zoneAtLocal :: "int \<Rightarrow> int"
  md5 :: "string \<Rightarrow> string"
  summarizationPrompt :: "string option"
  summarizationThreshold :: int
  summarizationModel :: string
  safetyConfig :: safety_config
  manager :: providerManager
  isUuid :: "string \<Rightarrow> bool"
  limiterEnv :: limiter_env

record msg_metadata =
  mi_tokenCount :: "int option"
  mi_provider :: "string option"
  mi_model :: "string option"
  mi_usage :: "usage_doc option"
  mi_responseTime :: "int option"

definition no_metadata :: msg_metadata where
  "no_metadata =
     \<lparr>mi_tokenCount = None, mi_provider = None, mi_model = None, mi_usage = None,
      mi_responseTime = None\<rparr>"

record context_view =
  cv_messages :: "ctx_message list"
  cv_totalTokens :: int
  cv_messageCount :: int
  cv_systemPrompt :: string

definition getContextForSession :: "db \<Rightarrow> string \<Rightarrow> js_error + context_view" where
  "getContextForSession d sid =
     (case findActiveSession d sid of
        None \<Rightarrow> Inl (JsError ''Error'' ''Failed to get context: Session not found'' None)
      | Some session \<Rightarrow>
          Inr \<lparr>cv_messages = map (\<lambda>m. (m_role m, m_content m)) (getConversationHistory d sid),
               cv_totalTokens = ctx_totalTokens session,
               cv_messageCount = ctx_messageCount session,
               cv_systemPrompt = systemPrompt session\<rparr>)"

text \<open>
  What \<open>summarizeContext\<close> returns: nothing (fewer than two candidates), \<open>null\<close> (an
  error was caught), or the three counts.
\<close>

datatype summary_result = SummaryUndefined | SummaryNull | SummaryStats int int int

definition defaultSummaryPrompt :: string where
  "defaultSummaryPrompt =
     ''Summarize the following conversation concisely, preserving key context and information:''"

definition conversationTextOf :: "message_doc list \<Rightarrow> string" where
  "conversationTextOf ms =
     join_js [CHR 0x0A] (map (\<lambda>m. role_name (m_role m) @ '': '' @ m_content m) ms)"

text \<open>
  The update of the session at the end of \<open>summarizeContext\<close>, computed from the copy
  of the session that the function read at its start.
\<close>

definition applySummaryToSession ::
  "session_doc \<Rightarrow> message_doc list \<Rightarrow> int \<Rightarrow> int \<Rightarrow> string \<Rightarrow> session_doc" where
  "applySummaryToSession session candidates summaryTokens now summaryHash =
     (let tokensSaved = sum_list (map md_tokenCount candidates)
      in session\<lparr>ctx_totalTokens := ctx_totalTokens session - tokensSaved + summaryTokens,
                 ctx_messageCount :=
                   ctx_messageCount session - int (length candidates) + 1,
                 ctx_lastSummarizedAt := Some now,
                 ctx_summaryHash := Some summaryHash\<rparr>)"

text \<open>
  The cutoff of \<open>summarizeContext\<close>: \<open>cutoffDate.setMinutes(cutoffDate.getMinutes() - 10)\<close>
  on the current date. \<open>setMinutes\<close> works on the local time: it takes the local time of
  the instant, moves its minutes back by 10, and turns the local time so obtained back
  into an instant. Where the offset of the zone does not change in between, that is 10
  minutes before the clock.
\<close>

definition summaryCutoff :: "core_env \<Rightarrow> int" where
  "summaryCutoff env =
     (let localTime = clock env + zone env (clock env) - 600000
      in localTime - zoneAtLocal env localTime)"

text \<open>
  The values that \<open>summarizeContext\<close> computes before it calls the provider: the
  candidates (user and assistant messages created before the cutoff), the name of the
  provider, and the system prompt.
\<close>

definition messagesToSummarize :: "core_env \<Rightarrow> db \<Rightarrow> string \<Rightarrow> message_doc list" where
  "messagesToSummarize env d sid = getMessagesForSummarization d sid (summaryCutoff env)"

definition summarizationProvider :: "core_env \<Rightarrow> js_error + adapter" where
  "summarizationProvider env =
     getProvider (manager env)
       (if includes_js (summarizationModel env) ''gpt'' then ''openai'' else ''mock'')"

definition summaryPrompt :: "core_env \<Rightarrow> string" where
  "summaryPrompt env =
     (case summarizationPrompt env of Some c \<Rightarrow> c | None \<Rightarrow> defaultSummaryPrompt)"

definition summarizeContext :: "core_env \<Rightarrow> db \<Rightarrow> string \<Rightarrow> db \<times> summary_result" where
  "summarizeContext env d sid =
     (case findActiveSession d sid of
        None \<Rightarrow> (d, SummaryNull)
      | Some session \<Rightarrow>
          (let candidates = messagesToSummarize env d sid
           in if length candidates < 2 then (d, SummaryUndefined)
              else
                (let conversationText = conversationTextOf candidates
                 in case summarizationProvider env of
                      Inl e \<Rightarrow> (d, SummaryNull)
                    | Inr provider \<Rightarrow>
                        (case generateResponse provider [(RUser, conversationText)]
                                (summaryPrompt env) of
                           Inl e \<Rightarrow> (d, SummaryNull)
                         | Inr summaryResponse \<Rightarrow>
                             (let summaryHash = md5 env conversationText;
                                  messageIds = map m_id candidates
                              in case replaceWithSummary (clock env) d sid
                                        messageIds (r_text summaryResponse) of
                                   (d1, Inl e) \<Rightarrow> (d1, SummaryNull)
                                 | (d1, Inr summary) \<Rightarrow>
                                     (case r_usage summaryResponse of
                                        None \<Rightarrow> (d1, SummaryNull)
                                      | Some u \<Rightarrow>
                                          (let tokensSaved =
                                                 sum_list (map md_tokenCount candidates);
                                               summaryTokens = totalTokens u;
                                               session1 =
                                                 applySummaryToSession session candidates
                                                   summaryTokens (clock env) summaryHash
                                           in (updateSession d1 sid (\<lambda>s. session1),
                                               SummaryStats (int (length candidates))
                                                 (tokensSaved - summaryTokens) summaryTokens))))))))"

definition failedToAdd :: "string \<Rightarrow> js_error" where
  "failedToAdd msg = JsError ''Error'' (''Failed to add message: '' @ msg) None"

text \<open>
  \<open>addMessageToContext\<close>: the message is stored with its token count, the session
  counters are raised by that count and by one message, and a summarisation is run when
  the new total is above the threshold.
\<close>

definition addMessageToContext ::
  "core_env \<Rightarrow> db \<Rightarrow> string \<Rightarrow> msg_role \<Rightarrow> string \<Rightarrow> msg_metadata
     \<Rightarrow> js_error + (db \<times> message_doc)" where
  "addMessageToContext env d sid r txt md =
     (case findActiveSession d sid of
        None \<Rightarrow> Inl (failedToAdd ''Session not found'')
      | Some session \<Rightarrow>
          (let tokenCount = (case mi_tokenCount md of
                               None \<Rightarrow> estimateTokens txt
                             | Some n \<Rightarrow> if n = 0 then estimateTokens txt else n);
               message =
                 \<lparr>m_id = 0, m_sessionId = sid, m_userId = Some (s_userId session), m_role = r,
                  m_content = txt, md_provider = mi_provider md, md_model = mi_model md,
                  md_tokenCount = tokenCount, md_usage = mi_usage md,
                  md_responseTime = mi_responseTime md, md_isStreaming = False,
                  md_streamingComplete = True, m_status = Completed, m_error = None,
                  createdAt = clock env\<rparr>
           in case insertMessage (clock env) d message of
                Inl e \<Rightarrow> Inl (failedToAdd (err_message e))
              | Inr (d1, saved) \<Rightarrow>
                  (let session1 = updateContext (clock env) tokenCount 1 session;
                       d2 = updateSession d1 sid (\<lambda>s. session1)
                   in if needsSummarization (summarizationThreshold env) session1
                      then Inr (fst (summarizeContext env d2 sid), saved)
                      else Inr (d2, saved))))"

section \<open>HTTP layer\<close>

datatype json =
    JNull
  | JUndefined
  | JBool bool
  | JNum int
  | JStr string
  | JDate int
  | JArr "json list"
  | JObj "(string \<times> json) list"

record http_response =
  status :: nat
  headers :: "(string \<times> json) list"
  body :: json

record chat_request =
  req_userId :: string
  req_sessionId :: string
  req_message :: string
  req_provider :: "string option"

record server =
  limiterState :: limiter
  store :: db

definition json_of_num :: "int option \<Rightarrow> json" where
  "json_of_num v = (case v of None \<Rightarrow> JUndefined | Some n \<Rightarrow> JNum n)"

text \<open>\<open>new Date(t).toISOString()\<close> throws a \<open>RangeError\<close> outside the range of dates.\<close>

definition validDate :: "int \<Rightarrow> bool" where
  "validDate t = (- 8640000000000000 \<le> t \<and> t \<le> 8640000000000000)"

subsection \<open>Rate-limit middleware\<close>

text \<open>
  The middleware either answers 429 itself or hands over to the route, with the headers
  it has set. An error while it builds the headers is caught and the request goes on.
\<close>

datatype mw_result = Next "(string \<times> json) list" | Reject http_response

definition createMiddleware ::
  "limiter_env \<Rightarrow> int \<Rightarrow> limiter \<Rightarrow> string \<Rightarrow> int \<Rightarrow> int \<Rightarrow> limiter \<times> mw_result" where
  "createMiddleware env now rl k windowMs maxRequests =
     (case checkRateLimit env now rl k windowMs maxRequests of
        (rl1, result) \<Rightarrow>
          (case resetTime result of
             None \<Rightarrow> (rl1, Next [])
           | Some reset \<Rightarrow>
               if \<not> validDate reset then (rl1, Next [])
               else
                 (let hdrs = [(''X-RateLimit-Limit'', json_of_num (total result)),
                              (''X-RateLimit-Remaining'', json_of_num (remaining result)),
                              (''X-RateLimit-Reset'', JDate reset)]
                  in if \<not> allowed result
                     then (rl1, Reject
                             \<lparr>status = 429, headers = hdrs,
                              body = JObj [(''error'', JStr ''Too Many Requests''),
                                           (''message'', JStr ''Rate limit exceeded''),
                                           (''retryAfter'', JNum (ceil_div (reset - now) 1000))]\<rparr>)
                     else (rl1, Next hdrs))))"

text \<open>\<open>chatRateLimit\<close>: 50 requests per 15 minutes under the key \<open>chat:<userId>\<close>.\<close>

definition chatRateLimit :: "core_env \<Rightarrow> limiter \<Rightarrow> chat_request \<Rightarrow> limiter \<times> mw_result" where
  "chatRateLimit env rl req =
     createMiddleware (limiterEnv env) (clock env) rl (''chat:'' @ req_userId req)
       (15 * 60 * 1000) 50"

subsection \<open>Admission of a turn\<close>

definition internalError :: "(string \<times> json) list \<Rightarrow> js_error \<Rightarrow> http_response" where
  "internalError hdrs e =
     \<lparr>status = 500, headers = hdrs,
      body = JObj [(''error'', JStr ''Message processing failed''),
                   (''message'', JStr (err_message e))]\<rparr>"

text \<open>
  \<open>validateMessage\<close>: the content has 1 to 4000 code units and the session id is a
  string that is not empty and has the \<open>uuid\<close> format; otherwise it throws.
\<close>

definition validateMessage :: "core_env \<Rightarrow> chat_request \<Rightarrow> js_error + string" where
  "validateMessage env req =
     (if 1 \<le> length (req_message req) \<and> length (req_message req) \<le> 4000
         \<and> req_sessionId req \<noteq> [] \<and> isUuid env (req_sessionId req)
      then Inr (req_message req)
      else Inl (JsError ''Error'' ''Message validation failed'' None))"

text \<open>
  The first steps of both message routes: validation, the user and the quota check, the
  session, the safety screen. A turn that passes carries on with the user document
  (after the quota check), the session document and the content.
\<close>

definition admitTurn ::
  "core_env \<Rightarrow> (string \<times> json) list \<Rightarrow> db \<Rightarrow> chat_request
     \<Rightarrow> http_response + (user_doc \<times> session_doc \<times> string)" where
  "admitTurn env hdrs d req =
     (case validateMessage env req of
        Inl e \<Rightarrow> Inl (internalError hdrs e)
      | Inr txt \<Rightarrow>
          (case findUserById d (req_userId req) of
             None \<Rightarrow>
               Inl \<lparr>status = 429, headers = hdrs,
                    body = JObj [(''error'', JStr ''Quota exceeded''),
                                 (''message'', JStr ''Daily usage quota exceeded'')]\<rparr>
           | Some u \<Rightarrow>
               (case hasExceededQuotas (zone env) (clock env) u of
                  (u1, exceeded) \<Rightarrow>
                    if exceeded then
                      Inl \<lparr>status = 429, headers = hdrs,
                           body = JObj [(''error'', JStr ''Quota exceeded''),
                                        (''message'', JStr ''Daily usage quota exceeded'')]\<rparr>
                    else
                      (case findActiveSessionOfUser d (req_sessionId req) (req_userId req) of
                         None \<Rightarrow>
                           Inl \<lparr>status = 404, headers = hdrs,
                                body = JObj [(''error'', JStr ''Session not found''),
                                             (''message'', JStr ''Session not found or inactive'')]\<rparr>
                       | Some session \<Rightarrow>
                           (let safetyCheck = checkContentSafety (safetyConfig env) txt
                            in if flagged safetyCheck \<and> confidence safetyCheck > 95 / 100 then
                                 Inl \<lparr>status = 400, headers = hdrs,
                                      body = JObj [(''error'', JStr ''Content flagged''),
                                                   (''message'',
                                                    JStr ''Your message contains inappropriate content''),
                                                   (''flags'', JArr (map JStr (flags safetyCheck)))]\<rparr>
                               else Inr (u1, session, txt))))))"

text \<open>
  After admission: the user message is added to the context; the title is derived when
  the route's copy of the session counts one message; the context is read; the provider
  is chosen.
\<close>

record turn_setup =
  ts_session :: session_doc
  ts_userMessage :: message_doc
  ts_context :: context_view
  ts_provider :: adapter

definition setupTurn ::
  "core_env \<Rightarrow> db \<Rightarrow> chat_request \<Rightarrow> session_doc \<Rightarrow> string \<Rightarrow> db \<times> (js_error + turn_setup)" where
  "setupTurn env d req session txt =
     (case addMessageToContext env d (req_sessionId req) RUser txt no_metadata of
        Inl e \<Rightarrow> (d, Inl e)
      | Inr (d1, userMessage) \<Rightarrow>
          (let session1 = (if ctx_messageCount session = 1 then generateTitle txt session
                           else session);
               d2 = (if ctx_messageCount session = 1
                     then updateSession d1 (req_sessionId req) (\<lambda>s. s\<lparr>title := title session1\<rparr>)
                     else d1)
           in case getContextForSession d2 (req_sessionId req) of
                Inl e \<Rightarrow> (d2, Inl e)
              | Inr ctx \<Rightarrow>
                  (case getWorkingProvider (manager env)
                          (case req_provider req of
                             None \<Rightarrow> s_provider session
                           | Some p \<Rightarrow> if p = [] then s_provider session else p) of
                     Inl e \<Rightarrow> (d2, Inl e)
                   | Inr aiProvider \<Rightarrow>
                       (d2, Inr \<lparr>ts_session = session1, ts_userMessage = userMessage,
                                 ts_context = ctx, ts_provider = aiProvider\<rparr>))))"

text \<open>The two calls of the chosen adapter, with the context and the system prompt.\<close>

definition providerReply :: "turn_setup \<Rightarrow> js_error + gen_result" where
  "providerReply setup =
     generateResponse (ts_provider setup) (cv_messages (ts_context setup))
       (cv_systemPrompt (ts_context setup))"

definition providerStream :: "turn_setup \<Rightarrow> stream_outcome" where
  "providerStream setup =
     streamResponse (ts_provider setup) (cv_messages (ts_context setup))
       (cv_systemPrompt (ts_context setup))"

text \<open>
  \<open>session.updateContext(tokens); session.save()\<close> in a route. The route holds the copy
  of the session it read during admission; the context manager has meanwhile written
  through copies of its own. The save writes the paths changed on the route's copy: the
  activity time, and the token total when the addition changed it.
\<close>

definition saveRouteSession :: "core_env \<Rightarrow> db \<Rightarrow> session_doc \<Rightarrow> int \<Rightarrow> db" where
  "saveRouteSession env d session tokens =
     (let session1 = updateContext (clock env) tokens 0 session
      in updateSession d (sessionId session)
           (\<lambda>s. (if ctx_totalTokens session1 = ctx_totalTokens session then s
                  else s\<lparr>ctx_totalTokens := ctx_totalTokens session1\<rparr>)
                 \<lparr>lastActivityAt := lastActivityAt session1\<rparr>))"

definition json_of_usage :: "usage_doc option \<Rightarrow> json" where
  "json_of_usage v =
     (case v of
        None \<Rightarrow> JUndefined
      | Some u \<Rightarrow> JObj [(''promptTokens'', JNum (promptTokens u)),
                        (''completionTokens'', JNum (completionTokens u)),
                        (''totalTokens'', JNum (totalTokens u))])"

definition json_of_userMessage :: "message_doc \<Rightarrow> json" where
  "json_of_userMessage m =
     JObj [(''id'', JNum (int (m_id m))), (''content'', JStr (m_content m)),
           (''role'', JStr ''user''), (''createdAt'', JDate (createdAt m))]"

subsection \<open>The route without streaming\<close>

text \<open>The fallback of the route: the canned text is stored as the assistant message.\<close>

definition simpleFallback ::
  "core_env \<Rightarrow> (string \<times> json) list \<Rightarrow> turn_setup \<Rightarrow> db \<Rightarrow> chat_request \<Rightarrow> js_error
     \<Rightarrow> db \<times> http_response" where
  "simpleFallback env hdrs setup d req providerError =
     (let safeResponse = generateSafeResponse providerError
      in case addMessageToContext env d (req_sessionId req) RAssistant (sr_text safeResponse)
                (no_metadata\<lparr>mi_provider := Some (a_name (ts_provider setup))\<rparr>) of
           Inl e \<Rightarrow> (d, internalError hdrs e)
         | Inr (d1, assistantMessage) \<Rightarrow>
             (d1, \<lparr>status = 200, headers = hdrs,
                   body = JObj [(''success'', JBool True),
                                (''userMessage'', json_of_userMessage (ts_userMessage setup)),
                                (''assistantMessage'',
                                 JObj [(''id'', JNum (int (m_id assistantMessage))),
                                       (''content'', JStr (sr_text safeResponse)),
                                       (''role'', JStr ''assistant''),
                                       (''createdAt'', JDate (createdAt assistantMessage)),
                                       (''metadata'',
                                        JObj [(''provider'', JStr (a_name (ts_provider setup))),
                                              (''fallback'', JBool True),
                                              (''error'', JStr (err_message providerError))])])]\<rparr>))"

definition usageTokensOr :: "usage_doc option \<Rightarrow> int \<Rightarrow> int" where
  "usageTokensOr v dflt =
     (case v of None \<Rightarrow> dflt | Some u \<Rightarrow> if totalTokens u = 0 then dflt else totalTokens u)"

text \<open>The metadata that the route passes for the assistant message of a successful call.\<close>

definition assistantMetadata :: "turn_setup \<Rightarrow> session_doc \<Rightarrow> gen_result \<Rightarrow> msg_metadata" where
  "assistantMetadata setup session result =
     \<lparr>mi_tokenCount = None,
      mi_provider = Some (a_name (ts_provider setup)),
      mi_model = Some (s_model session),
      mi_usage = r_usage result,
      mi_responseTime = Some 0\<rparr>"

definition postMessageSimple ::
  "core_env \<Rightarrow> (string \<times> json) list \<Rightarrow> db \<Rightarrow> chat_request \<Rightarrow> db \<times> http_response" where
  "postMessageSimple env hdrs d req =
     (case admitTurn env hdrs d req of
        Inl resp \<Rightarrow> (d, resp)
      | Inr (user, session, txt) \<Rightarrow>
          (case setupTurn env d req session txt of
             (d1, Inl e) \<Rightarrow> (d1, internalError hdrs e)
           | (d1, Inr setup) \<Rightarrow>
               (case providerReply setup of
                  Inl providerError \<Rightarrow> simpleFallback env hdrs setup d1 req providerError
                | Inr result \<Rightarrow>
                    (case addMessageToContext env d1 (req_sessionId req) RAssistant (r_text result)
                            (assistantMetadata setup session result) of
                       Inl providerError \<Rightarrow> simpleFallback env hdrs setup d1 req providerError
                     | Inr (d2, assistantMessage) \<Rightarrow>
                         (let tokens = usageTokensOr (r_usage result) 0;
                              d3 = saveRouteSession env d2 (ts_session setup) tokens;
                              d4 = saveUser d3 (updateUsage (zone env) (clock env) tokens user)
                          in (d4,
                              \<lparr>status = 200, headers = hdrs,
                               body = JObj [(''success'', JBool True),
                                            (''userMessage'',
                                             json_of_userMessage (ts_userMessage setup)),
                                            (''assistantMessage'',
                                             JObj [(''id'', JNum (int (m_id assistantMessage))),
                                                   (''content'', JStr (r_text result)),
                                                   (''role'', JStr ''assistant''),
                                                   (''createdAt'', JDate (createdAt assistantMessage)),
                                                   (''metadata'',
                                                    JObj [(''provider'',
                                                           JStr (a_name (ts_provider setup))),
                                                          (''model'', JStr (s_model session)),
                                                          (''usage'', json_of_usage (r_usage result)),
                                                          (''responseTime'', JNum 0)])])]\<rparr>))))))"

subsection \<open>The streaming route\<close>

definition sseHeaders :: "(string \<times> json) list" where
  "sseHeaders =
     [(''Content-Type'', JStr ''text/event-stream''),
      (''Cache-Control'', JStr ''no-cache''),
      (''Connection'', JStr ''keep-alive''),
      (''Access-Control-Allow-Origin'', JStr ''*''),
      (''Access-Control-Allow-Headers'', JStr ''Cache-Control'')]"

definition tokenEvent :: "message_doc \<Rightarrow> string \<Rightarrow> json" where
  "tokenEvent assistantMessage token =
     JObj [(''type'', JStr ''token''), (''content'', JStr token),
           (''messageId'', JNum (int (m_id assistantMessage)))]"

text \<open>
  \<open>onDone\<close>: the assistant message is completed with the text received so far and
  saved; then the route's copy of the session and the user document are charged with
  the usage total (or, when there is none, with the number of tokens received) and
  saved; then the \<open>done\<close> event is written. A failure of the save is caught and
  reported as an \<open>error\<close> event.
\<close>

definition completedMessage :: "message_doc \<Rightarrow> string list \<Rightarrow> gen_result \<Rightarrow> message_doc" where
  "completedMessage assistantMessage tokens result =
     assistantMessage\<lparr>m_content := concat tokens, m_status := Completed,
                      md_streamingComplete := True, md_isStreaming := False,
                      md_usage := r_usage result, md_responseTime := Some 0\<rparr>"

definition onDone ::
  "core_env \<Rightarrow> db \<Rightarrow> user_doc \<Rightarrow> session_doc \<Rightarrow> message_doc \<Rightarrow> string list \<Rightarrow> gen_result
     \<Rightarrow> db \<times> json list" where
  "onDone env d user session assistantMessage tokens result =
     (case saveMessage d (completedMessage assistantMessage tokens result) of
        Inl e \<Rightarrow>
          (d, [JObj [(''type'', JStr ''error''), (''message'', JStr ''Failed to save response'')]])
      | Inr (d1, saved) \<Rightarrow>
          (let charged = usageTokensOr (r_usage result) (int (length tokens));
               d2 = saveRouteSession env d1 session charged;
               d3 = saveUser d2 (updateUsage (zone env) (clock env) charged user)
           in (d3, [JObj [(''type'', JStr ''done''),
                          (''messageId'', JNum (int (m_id assistantMessage))),
                          (''usage'', json_of_usage (r_usage result)),
                          (''responseTime'', JNum 0)]])))"

text \<open>\<open>onError\<close>: the assistant message is marked as failed and saved.\<close>

definition onError :: "core_env \<Rightarrow> db \<Rightarrow> message_doc \<Rightarrow> js_error \<Rightarrow> db \<times> json list" where
  "onError env d assistantMessage e =
     (case saveMessage d
             (assistantMessage\<lparr>m_status := Failed,
                m_error := Some \<lparr>e_message = err_message e,
                                 e_code = (case err_code e of
                                             None \<Rightarrow> ''PROVIDER_ERROR''
                                           | Some c \<Rightarrow> if c = [] then ''PROVIDER_ERROR'' else c),
                                 e_retryable = Some True\<rparr>\<rparr>) of
        Inl saveError \<Rightarrow> (d, [])
      | Inr (d1, saved) \<Rightarrow>
          (d1, [JObj [(''type'', JStr ''error''), (''message'', JStr (err_message e)),
                      (''retryable'', JBool True)]]))"

text \<open>
  The \<open>catch\<close> around the streaming call: the canned text becomes the content of the
  assistant message, which is saved as completed with the error attached.
\<close>

definition streamFallback :: "core_env \<Rightarrow> db \<Rightarrow> message_doc \<Rightarrow> js_error \<Rightarrow> db \<times> json list" where
  "streamFallback env d assistantMessage providerError =
     (let safeResponse = generateSafeResponse providerError
      in case saveMessage d
                (assistantMessage\<lparr>m_content := sr_text safeResponse, m_status := Completed,
                   m_error := Some \<lparr>e_message = err_message providerError,
                                    e_code = ''PROVIDER_FALLBACK'', e_retryable = None\<rparr>\<rparr>) of
           Inl e \<Rightarrow> (d, [])
         | Inr (d1, saved) \<Rightarrow>
             (d1, [JObj [(''type'', JStr ''token''), (''content'', JStr (sr_text safeResponse))],
                   JObj [(''type'', JStr ''done''),
                         (''messageId'', JNum (int (m_id assistantMessage))),
                         (''fallback'', JBool True)]]))"

text \<open>
  The assistant message that the route stores before the stream starts. Its content is
  the empty string.
\<close>

definition assistantPlaceholder ::
  "core_env \<Rightarrow> chat_request \<Rightarrow> session_doc \<Rightarrow> turn_setup \<Rightarrow> message_doc" where
  "assistantPlaceholder env req session setup =
     \<lparr>m_id = 0, m_sessionId = req_sessionId req,
      m_userId = Some (req_userId req), m_role = RAssistant, m_content = [],
      md_provider = Some (a_name (ts_provider setup)),
      md_model = Some (s_model session), md_tokenCount = 0, md_usage = None,
      md_responseTime = None, md_isStreaming = True,
      md_streamingComplete = False, m_status = Streaming, m_error = None,
      createdAt = clock env\<rparr>"

text \<open>
  The route. The four ends of the streaming call: \<open>onDone\<close>; \<open>onError\<close>; the \<open>catch\<close>
  of the route; or \<open>onError\<close> and then the \<open>catch\<close>, both on the one assistant message.
  In the last case the handler \<open>onError\<close> is taken first and the \<open>catch\<close> after it: the
  handler ends the response, so what the \<open>catch\<close> writes comes after the end and is not
  part of the body, while its save is made.
\<close>

definition postMessage ::
  "core_env \<Rightarrow> (string \<times> json) list \<Rightarrow> db \<Rightarrow> chat_request \<Rightarrow> db \<times> http_response" where
  "postMessage env hdrs d req =
     (case admitTurn env hdrs d req of
        Inl resp \<Rightarrow> (d, resp)
      | Inr (user, session, txt) \<Rightarrow>
          (case setupTurn env d req session txt of
             (d1, Inl e) \<Rightarrow> (d1, internalError hdrs e)
           | (d1, Inr setup) \<Rightarrow>
               (case insertMessage (clock env) d1
                       (assistantPlaceholder env req session setup) of
                  Inl e \<Rightarrow> (d1, internalError hdrs e)
                | Inr (d2, assistantMessage) \<Rightarrow>
                    (case (case providerStream setup of
                             StreamDone tokens result \<Rightarrow>
                               (case onDone env d2 user (ts_session setup) assistantMessage
                                       tokens result of
                                  (d3, evs) \<Rightarrow> (d3, map (tokenEvent assistantMessage) tokens @ evs))
                           | StreamOnError tokens e \<Rightarrow>
                               (case onError env d2 assistantMessage e of
                                  (d3, evs) \<Rightarrow> (d3, map (tokenEvent assistantMessage) tokens @ evs))
                           | StreamThrown tokens e \<Rightarrow>
                               (case streamFallback env d2 assistantMessage e of
                                  (d3, evs) \<Rightarrow> (d3, map (tokenEvent assistantMessage) tokens @ evs))
                           | StreamOnErrorThrown tokens e \<Rightarrow>
                               (case onError env d2 assistantMessage e of
                                  (d3, evs) \<Rightarrow>
                                    (case streamFallback env d3 assistantMessage e of
                                       (d4, late) \<Rightarrow>
                                         (d4, map (tokenEvent assistantMessage) tokens @ evs)))) of
                       (d3, events) \<Rightarrow>
                         (d3, \<lparr>status = 200, headers = hdrs @ sseHeaders,
                               body = JArr events\<rparr>)))))"

subsection \<open>The two endpoints\<close>

text \<open>
  A request of an authenticated user passes the rate-limit middleware and then the
  route.
\<close>

definition chatMessageEndpoint :: "core_env \<Rightarrow> server \<Rightarrow> chat_request \<Rightarrow> server \<times> http_response" where
  "chatMessageEndpoint env srv req =
     (case chatRateLimit env (limiterState srv) req of
        (rl1, Reject resp) \<Rightarrow> (srv\<lparr>limiterState := rl1\<rparr>, resp)
      | (rl1, Next hdrs) \<Rightarrow>
          (case postMessage env hdrs (store srv) req of
             (d1, resp) \<Rightarrow> (\<lparr>limiterState = rl1, store = d1\<rparr>, resp)))"

definition chatMessageSimpleEndpoint ::
  "core_env \<Rightarrow> server \<Rightarrow> chat_request \<Rightarrow> server \<times> http_response" where
  "chatMessageSimpleEndpoint env srv req =
     (case chatRateLimit env (limiterState srv) req of
        (rl1, Reject resp) \<Rightarrow> (srv\<lparr>limiterState := rl1\<rparr>, resp)
      | (rl1, Next hdrs) \<Rightarrow>
          (case postMessageSimple env hdrs (store srv) req of
             (d1, resp) \<Rightarrow> (\<lparr>limiterState = rl1, store = d1\<rparr>, resp)))"

subsection \<open>The WebSocket handler\<close>








text \<open>The invariant of the data model: the session total against the stored messages.\<close>

definition sessionTokenSum :: "db \<Rightarrow> string \<Rightarrow> int" where
  "sessionTokenSum d sid = sum_list (map md_tokenCount (sessionMessages d sid))"

section \<open>Scenario data\<close>

text \<open>
  The concrete states, requests and environments at which the properties below are
  exercised: one user without usage, one active session, a registry with the mock
  adapter, a remote adapter that answers \<open>Hi there\<close> with a usage of 15 tokens, and an
  adapter whose calls fail.
\<close>

definition sid1 :: string where
  "sid1 = ''123e4567-e89b-12d3-a456-426614174000''"

definition demo_user :: user_doc where
  "demo_user =
     \<lparr>u_id = ''u1'', usage_totalTokens = 0, usage_totalRequests = 0,
      usage_lastRequestAt = None, quotas_dailyTokenLimit = 100000,
      quotas_dailyRequestLimit = 1000, quotas_resetDate = 1699999000000\<rparr>"

definition demo_session :: "string \<Rightarrow> session_doc" where
  "demo_session p =
     \<lparr>sessionId = sid1, s_userId = ''u1'', title = ''New Chat'', s_provider = p,
      s_model = ''gpt-4o-mini'', systemPrompt = [], ctx_totalTokens = 0, ctx_messageCount = 0,
      ctx_lastSummarizedAt = None, ctx_summaryHash = None, isActive = True,
      lastActivityAt = 1699999000000\<rparr>"

definition demo_db :: "string \<Rightarrow> db" where
  "demo_db p = \<lparr>users = [demo_user], sessions = [demo_session p], messages = [], nextId = 1\<rparr>"

definition remote_result :: gen_result where
  "remote_result =
     \<lparr>r_text = ''Hi there'',
      r_usage = Some \<lparr>promptTokens = 12, completionTokens = 3, totalTokens = 15\<rparr>,
      r_id = ''chatcmpl-1'', r_model = ''gpt-4o-mini''\<rparr>"

definition remote_adapter :: adapter where
  "remote_adapter =
     \<lparr>a_name = ''openai'', testConnection = True,
      generateResponse = (\<lambda>ms sp. Inr remote_result),
      streamResponse = (\<lambda>ms sp. StreamDone [''Hi'', '' there''] remote_result)\<rparr>"

definition flaky_error :: js_error where
  "flaky_error = JsError ''Error'' ''upstream connection reset'' None"

definition flaky_adapter :: adapter where
  "flaky_adapter =
     \<lparr>a_name = ''flaky'', testConnection = True,
      generateResponse = (\<lambda>ms sp. Inl flaky_error),
      streamResponse = (\<lambda>ms sp. StreamOnErrorThrown [] flaky_error)\<rparr>"

definition demo_env :: core_env where
  "demo_env =
     \<lparr>clock = 1700000000000, zone = (\<lambda>t. 0), zoneAtLocal = (\<lambda>t. 0),
      md5 = (\<lambda>s. ''digest''), summarizationPrompt = None, summarizationThreshold = 3000,
      summarizationModel = ''gpt-4o-mini'', safetyConfig = default_safety_config,
      manager = \<lparr>providers = [(''mock'', mockProvider 0 ''id-1''), (''openai'', remote_adapter),
                              (''flaky'', flaky_adapter)],
                 defaultProvider = ''openai''\<rparr>,
      isUuid = (\<lambda>s. length s = 36),
      limiterEnv = \<lparr>cleanupDraw = False, randomText = ''0.5'', execReply = Inr None,
                    setExError = None\<rparr>\<rparr>"

definition demo_req :: "string \<Rightarrow> chat_request" where
  "demo_req msg =
     \<lparr>req_userId = ''u1'', req_sessionId = sid1, req_message = msg, req_provider = None\<rparr>"

definition demo_server :: "string \<Rightarrow> server" where
  "demo_server p =
     \<lparr>limiterState = \<lparr>redisClient = False, inMemoryStore = [], redisLog = []\<rparr>,
      store = demo_db p\<rparr>"

definition exhausted_server :: server where
  "exhausted_server =
     \<lparr>limiterState = \<lparr>redisClient = False,
                       inMemoryStore = [(''chat:u1'', Requests (replicate 50 1699999999000))],
                       redisLog = []\<rparr>,
      store = demo_db ''mock''\<rparr>"

text \<open>
  A session with two messages of ten tokens each, created an hour before the clock of
  the scenario, and a running total of 100 tokens.
\<close>

definition old_message :: "nat \<Rightarrow> msg_role \<Rightarrow> string \<Rightarrow> message_doc" where
  "old_message i r txt =
     \<lparr>m_id = i, m_sessionId = sid1, m_userId = Some ''u1'', m_role = r, m_content = txt,
      md_provider = None, md_model = None, md_tokenCount = 10, md_usage = None,
      md_responseTime = None, md_isStreaming = False, md_streamingComplete = True,
      m_status = Completed, m_error = None, createdAt = 1699996400000 + int i\<rparr>"

definition summary_db :: db where
  "summary_db =
     \<lparr>users = [demo_user],
      sessions = [(demo_session ''openai'')\<lparr>ctx_totalTokens := 100, ctx_messageCount := 2\<rparr>],
      messages = [old_message 1 RUser ''What is a monad?'',
                  old_message 2 RAssistant ''A monad is a monoid in the category of endofunctors.''],
      nextId = 3\<rparr>"

definition summary_session :: session_doc where
  "summary_session = (demo_session ''openai'')\<lparr>ctx_totalTokens := 100, ctx_messageCount := 2\<rparr>"






text \<open>
  A limiter environment whose shared store fails on every pipeline, and a limiter that
  uses the shared store.
\<close>

definition failing_store_env :: limiter_env where
  "failing_store_env =
     \<lparr>cleanupDraw = False, randomText = ''0.5'',
      execReply = Inl (JsError ''Error'' ''Connection is closed'' None),
      setExError = None\<rparr>"

definition shared_limiter :: limiter where
  "shared_limiter = \<lparr>redisClient = True, inMemoryStore = [], redisLog = []\<rparr>"

text \<open>
  A user at the daily token limit whose last reset lies on the previous day.
\<close>

definition quota_user :: user_doc where
  "quota_user = \<lparr>u_id = ''u1'', usage_totalTokens = 100000, usage_totalRequests = 3,
     usage_lastRequestAt = Some 1699999000000, quotas_dailyTokenLimit = 100000,
     quotas_dailyRequestLimit = 1000, quotas_resetDate = 1699999000000\<rparr>"

text \<open>
  A limiter environment without a shared store in which the cleanup runs, and a limiter
  that holds two earlier requests of one user, one of them outside a window of 15 minutes
  before 1700000000000.
\<close>

definition local_env :: limiter_env where
  "local_env =
     \<lparr>cleanupDraw = True, randomText = ''0.25'', execReply = Inr (Some 1), setExError = None\<rparr>"

definition busy_limiter :: limiter where
  "busy_limiter =
     \<lparr>redisClient = False,
      inMemoryStore = [(''chat:u1'', Requests [1699999000000, 1699999999000])],
      redisLog = []\<rparr>"

section \<open>Properties\<close>

subsection \<open>Helper facts\<close>

lemma startsWith_iff: "startsWith cs pat \<longleftrightarrow> (\<exists>post. cs = pat @ post)"
  by (induction cs pat rule: startsWith.induct) auto

text \<open>\<open>includes_js\<close> is the substring relation.\<close>

lemma includes_js_iff: "includes_js cs pat \<longleftrightarrow> (\<exists>pre post. cs = pre @ pat @ post)"
proof (induction cs)
  case Nil
  then show ?case by auto
next
  case (Cons c cs)
  show ?case
  proof
    assume "includes_js (c # cs) pat"
    then consider "startsWith (c # cs) pat" | "includes_js cs pat"
      by (auto split: if_splits)
    then show "\<exists>pre post. c # cs = pre @ pat @ post"
    proof cases
      case 1
      then obtain post where "c # cs = pat @ post" using startsWith_iff by blast
      then have "c # cs = [] @ pat @ post" by simp
      then show ?thesis by blast
    next
      case 2
      then obtain pre post where "cs = pre @ pat @ post" using Cons.IH by blast
      then have "c # cs = (c # pre) @ pat @ post" by simp
      then show ?thesis by blast
    qed
  next
    assume "\<exists>pre post. c # cs = pre @ pat @ post"
    then obtain pre post where e: "c # cs = pre @ pat @ post" by blast
    show "includes_js (c # cs) pat"
    proof (cases pre)
      case Nil
      then have "startsWith (c # cs) pat" using e startsWith_iff by auto
      then show ?thesis by simp
    next
      case (Cons d ds)
      then have "cs = ds @ pat @ post" using e by simp
      then have "includes_js cs pat" using Cons.IH by blast
      then show ?thesis by simp
    qed
  qed
qed

subsection \<open>Mock adapter\<close>

text \<open>
  Claim C3. The mock adapter is to succeed on every input: \<open>generateResponse\<close> and
  \<open>streamResponse\<close> give a result and \<open>testConnection\<close> reports success. The code of
  \<open>generateResponse\<close> does not: for every draw, every context and every system prompt it
  throws a \<open>ReferenceError\<close> when it reads \<open>mockResponses\<close> outside the block that
  declares it. The streaming call and the connection test do succeed.
\<close>

theorem mock_generateResponse_throws:
  "mock_generateResponse draw uuid msgs sysPrompt =
     Inl (JsError ''ReferenceError'' ''mockResponses is not defined'' None)"
  by (simp add: mock_generateResponse_def lookup_identifier_def generateResponse_body_scope_def)

lemma mock_streamResponse_done:
  "\<exists>tokens r. streamResponse (mockProvider draw uuid) msgs sysPrompt = StreamDone tokens r"
  by (simp add: mockProvider_def mock_streamResponse_def Let_def)

lemma mock_testConnection: "testConnection (mockProvider draw uuid)"
  by (simp add: mockProvider_def)

subsection \<open>Rate limiter\<close>

text \<open>
  Claim C4. Fail-open: whenever the body of a rate-limit check raises an error, for
  requests as for tokens, the check returns a decision (the error goes no further) that
  allows the request, with \<open>remaining\<close> equal to the full maximum.
\<close>

theorem rate_limit_fails_open:
  "(snd (checkRateLimit_try env now rl k windowMs maxRequests) = Inl e \<longrightarrow>
      allowed (snd (checkRateLimit env now rl k windowMs maxRequests)) \<and>
      remaining (snd (checkRateLimit env now rl k windowMs maxRequests)) = Some maxRequests) \<and>
   (snd (checkTokenRateLimit_try env now rl uid tokens tokenWindowMs maxTokens) = Inl e' \<longrightarrow>
      allowed (snd (checkTokenRateLimit env now rl uid tokens tokenWindowMs maxTokens)) \<and>
      remaining (snd (checkTokenRateLimit env now rl uid tokens tokenWindowMs maxTokens)) =
        Some maxTokens)"
  by (auto simp: checkRateLimit_def checkTokenRateLimit_def split: prod.splits sum.splits)

text \<open>
  The witness: a limiter with a shared store whose pipeline fails, for both budgets.
\<close>

theorem rate_limit_fails_open_witness:
  "snd (checkRateLimit_try failing_store_env 1700000000000 shared_limiter ''chat:u1'' 900000 50)
     = Inl (JsError ''Error'' ''Connection is closed'' None) \<and>
   allowed (snd (checkRateLimit failing_store_env 1700000000000 shared_limiter ''chat:u1'' 900000 50)) \<and>
   remaining (snd (checkRateLimit failing_store_env 1700000000000 shared_limiter ''chat:u1'' 900000 50))
     = Some 50 \<and>
   snd (checkTokenRateLimit_try failing_store_env 1700000000000 shared_limiter ''u1'' 120 3600000 10000)
     = Inl (JsError ''Error'' ''Connection is closed'' None) \<and>
   allowed (snd (checkTokenRateLimit failing_store_env 1700000000000 shared_limiter ''u1'' 120 3600000 10000)) \<and>
   remaining (snd (checkTokenRateLimit failing_store_env 1700000000000 shared_limiter ''u1'' 120 3600000 10000))
     = Some 10000"
proof -
  have r: "snd (checkRateLimit_try failing_store_env 1700000000000 shared_limiter ''chat:u1'' 900000 50)
             = Inl (JsError ''Error'' ''Connection is closed'' None)"
    by (simp add: checkRateLimit_try_def checkRedisRateLimit_def failing_store_env_def
        shared_limiter_def Let_def)
  have t: "snd (checkTokenRateLimit_try failing_store_env 1700000000000 shared_limiter ''u1'' 120 3600000 10000)
             = Inl (JsError ''Error'' ''Connection is closed'' None)"
    by (simp add: checkTokenRateLimit_try_def checkRedisTokenLimit_def failing_store_env_def
        shared_limiter_def Let_def)
  show ?thesis
    using r t
      rate_limit_fails_open [of failing_store_env 1700000000000 shared_limiter "''chat:u1''"
        900000 50 "JsError ''Error'' ''Connection is closed'' None" "''u1''" 120 3600000 10000
        "JsError ''Error'' ''Connection is closed'' None"]
    by simp
qed

subsection \<open>Safety screen\<close>

text \<open>
  Claim C6. A text shorter than 500 code units that contains neither \<open>system\<close> nor
  \<open>ignore\<close> bypasses the screen: whatever the configuration, the result is not flagged,
  carries no flags and has confidence 0, and neither the profanity check nor the
  prompt-injection check contributes.
\<close>

theorem short_plain_text_bypasses_screen:
  "length msg < 500 \<Longrightarrow> \<not> includes_js msg ''system'' \<Longrightarrow> \<not> includes_js msg ''ignore'' \<Longrightarrow>
   checkContentSafety cfg msg =
     \<lparr>flagged = False, flags = [], confidence = 0,
      profanity = no_flags, promptInjection = no_flags\<rparr>"
  by (simp add: checkContentSafety_def)

theorem short_plain_text_bypasses_screen_witness:
  "length ''Hello there'' < 500 \<and> \<not> includes_js ''Hello there'' ''system'' \<and>
   \<not> includes_js ''Hello there'' ''ignore'' \<and>
   checkContentSafety \<lparr>enableProfanityFilter = True, enablePromptInjectionDetection = True\<rparr>
       ''Hello there'' =
     \<lparr>flagged = False, flags = [], confidence = 0,
      profanity = no_flags, promptInjection = no_flags\<rparr>"
proof -
  have a: "length ''Hello there'' < 500" by simp
  have b: "\<not> includes_js ''Hello there'' ''system''" by simp
  have c: "\<not> includes_js ''Hello there'' ''ignore''" by simp
  show ?thesis
    using a b c short_plain_text_bypasses_screen [OF a b c] by simp
qed

subsection \<open>User quotas\<close>

text \<open>Two instants share a block of length \<open>m\<close> exactly when their quotients agree.\<close>

lemma div_eq_iff_same_block:
  fixes a c m :: int
  assumes m: "0 < m"
  shows "(a div m = c div m) \<longleftrightarrow>
         (\<exists>k. k * m \<le> a \<and> a < (k + 1) * m \<and> k * m \<le> c \<and> c < (k + 1) * m)"
proof -
  have block: "\<And>x. (x div m) * m \<le> x \<and> x < (x div m + 1) * m"
  proof -
    fix x :: int
    have "x = (x div m) * m + x mod m" by simp
    moreover have "0 \<le> x mod m" "x mod m < m" using m by simp_all
    ultimately show "(x div m) * m \<le> x \<and> x < (x div m + 1) * m"
      by (smt (verit) distrib_right mult_cancel_right1 mult.commute)
  qed
  have uniq: "\<And>x k. k * m \<le> x \<Longrightarrow> x < (k + 1) * m \<Longrightarrow> x div m = k"
  proof -
    fix x k :: int
    assume lo: "k * m \<le> x" and hi: "x < (k + 1) * m"
    have "x = m * k + (x - k * m)" by (simp add: mult.commute)
    moreover have "0 \<le> x - k * m" using lo by simp
    moreover have "x - k * m < m" using hi by (simp add: distrib_right)
    ultimately show "x div m = k" by (rule int_div_pos_eq)
  qed
  show ?thesis
  proof
    assume e: "a div m = c div m"
    show "\<exists>k. k * m \<le> a \<and> a < (k + 1) * m \<and> k * m \<le> c \<and> c < (k + 1) * m"
      using block [of a] block [of c] e by (intro exI [of _ "a div m"]) simp
  next
    assume "\<exists>k. k * m \<le> a \<and> a < (k + 1) * m \<and> k * m \<le> c \<and> c < (k + 1) * m"
    then obtain k where "k * m \<le> a" "a < (k + 1) * m" "k * m \<le> c" "c < (k + 1) * m" by blast
    then show "a div m = c div m" using uniq by metis
  qed
qed

text \<open>
  Claim C10. The daily quota check resets itself and is inclusive:
  \<open>hasExceededQuotas\<close> first zeroes both usage counters and sets the reset date to now
  when the local calendar day of the reset date differs from today's, and then answers
  true exactly when the token usage has reached the daily token limit or the request
  usage has reached the daily request limit. So usage equal to a limit is rejected, and
  two instants count as the same day exactly when their local times lie in the same
  24-hour block of the local calendar.
\<close>

theorem quota_check_resets_then_compares:
  "hasExceededQuotas z now u = (u', b) \<Longrightarrow>
     u' = (if toDateString z now \<noteq> toDateString z (quotas_resetDate u)
           then u\<lparr>usage_totalTokens := 0, usage_totalRequests := 0, quotas_resetDate := now\<rparr>
           else u) \<and>
     (b \<longleftrightarrow> usage_totalTokens u' \<ge> quotas_dailyTokenLimit u' \<or>
            usage_totalRequests u' \<ge> quotas_dailyRequestLimit u') \<and>
     (usage_totalTokens u' = quotas_dailyTokenLimit u' \<longrightarrow> b) \<and>
     (usage_totalRequests u' = quotas_dailyRequestLimit u' \<longrightarrow> b) \<and>
     (toDateString z now = toDateString z (quotas_resetDate u) \<longleftrightarrow>
        (\<exists>day. day * 86400000 \<le> now + z now \<and> now + z now < (day + 1) * 86400000 \<and>
               day * 86400000 \<le> quotas_resetDate u + z (quotas_resetDate u) \<and>
               quotas_resetDate u + z (quotas_resetDate u) < (day + 1) * 86400000))"
proof -
  assume h: "hasExceededQuotas z now u = (u', b)"
  have u': "u' = checkAndResetQuotas z now u"
    using h by (simp add: hasExceededQuotas_def Let_def)
  have b: "b \<longleftrightarrow> usage_totalTokens u' \<ge> quotas_dailyTokenLimit u' \<or>
            usage_totalRequests u' \<ge> quotas_dailyRequestLimit u'"
    using h by (auto simp: hasExceededQuotas_def Let_def)
  have day: "toDateString z now = toDateString z (quotas_resetDate u) \<longleftrightarrow>
        (\<exists>day. day * 86400000 \<le> now + z now \<and> now + z now < (day + 1) * 86400000 \<and>
               day * 86400000 \<le> quotas_resetDate u + z (quotas_resetDate u) \<and>
               quotas_resetDate u + z (quotas_resetDate u) < (day + 1) * 86400000)"
    unfolding toDateString_def by (rule div_eq_iff_same_block) simp
  show ?thesis
    using u' b day by (simp add: checkAndResetQuotas_def)
qed

text \<open>
  The witness, in a zone one hour ahead of UTC: a user at the token limit is rejected on
  the day of the last reset, and is reset and admitted on the next day.
\<close>

theorem quota_check_resets_then_compares_witness:
  "hasExceededQuotas (\<lambda>t. 3600000) 1700000000000 quota_user = (quota_user, True) \<and>
   hasExceededQuotas (\<lambda>t. 3600000) 1700086400000 quota_user =
     (quota_user\<lparr>usage_totalTokens := 0, usage_totalRequests := 0,
                 quotas_resetDate := 1700086400000\<rparr>, False)"
proof -
  have a: "hasExceededQuotas (\<lambda>t. 3600000) 1700000000000 quota_user = (quota_user, True)"
    by (simp add: hasExceededQuotas_def checkAndResetQuotas_def toDateString_def quota_user_def)
  have b: "hasExceededQuotas (\<lambda>t. 3600000) 1700086400000 quota_user =
     (quota_user\<lparr>usage_totalTokens := 0, usage_totalRequests := 0,
                 quotas_resetDate := 1700086400000\<rparr>, False)"
    by (simp add: hasExceededQuotas_def checkAndResetQuotas_def toDateString_def quota_user_def)
  show ?thesis
    using a b quota_check_resets_then_compares [OF a] quota_check_resets_then_compares [OF b]
    by simp
qed

subsection \<open>What a request check stores\<close>

text \<open>
  Compaction keeps, for every key, the timestamps that are still inside the window.
\<close>

lemma cleanup_loop_keeps_valid:
  "cleanup_loop ws es st = (st', None) \<Longrightarrow> distinct (map fst es) \<Longrightarrow>
   (\<forall>(k, v) \<in> set es. map_of st k = Some v) \<Longrightarrow>
   filter (\<lambda>t. t > ws) (storedRequests st' k') = filter (\<lambda>t. t > ws) (storedRequests st k')"
proof (induction ws es st arbitrary: st' rule: cleanup_loop.induct)
  case (1 windowStart st)
  then show ?case by simp
next
  case (2 windowStart k requests es st)
  let ?valid = "filter (\<lambda>timestamp. timestamp > windowStart) requests"
  have here: "map_of st k = Some (Requests requests)" using "2.prems"(3) by auto
  have rest: "\<forall>(k2, v2) \<in> set es. k2 \<noteq> k" using "2.prems"(2) by (force simp: image_iff)
  show ?case
  proof (cases "length ?valid = 0")
    case True
    have run: "cleanup_loop windowStart es (AList.delete k st) = (st', None)"
      using "2.prems"(1) True by (simp add: Let_def)
    have inv: "\<forall>(k2, v2) \<in> set es. map_of (AList.delete k st) k2 = Some v2"
      using "2.prems"(3) rest by (auto simp: delete_conv)
    have ih: "filter (\<lambda>t. t > windowStart) (storedRequests st' k') =
              filter (\<lambda>t. t > windowStart) (storedRequests (AList.delete k st) k')"
      using "2.IH"(1) [OF refl True run _ inv] "2.prems"(2) by simp
    have "filter (\<lambda>t. t > windowStart) (storedRequests (AList.delete k st) k') =
          filter (\<lambda>t. t > windowStart) (storedRequests st k')"
      using here True by (cases "k' = k") (auto simp: storedRequests_def delete_conv)
    then show ?thesis using ih by simp
  next
    case False
    have run: "cleanup_loop windowStart es (AList.update k (Requests ?valid) st) = (st', None)"
      using "2.prems"(1) False by (simp add: Let_def)
    have inv: "\<forall>(k2, v2) \<in> set es. map_of (AList.update k (Requests ?valid) st) k2 = Some v2"
      using "2.prems"(3) rest by (auto simp: update_conv)
    have ih: "filter (\<lambda>t. t > windowStart) (storedRequests st' k') =
              filter (\<lambda>t. t > windowStart) (storedRequests (AList.update k (Requests ?valid) st) k')"
      using "2.IH"(2) [OF refl False run _ inv] "2.prems"(2) by simp
    have "filter (\<lambda>t. t > windowStart) (storedRequests (AList.update k (Requests ?valid) st) k') =
          filter (\<lambda>t. t > windowStart) (storedRequests st k')"
      using here by (cases "k' = k") (auto simp: storedRequests_def update_conv)
    then show ?thesis using ih by simp
  qed
next
  case (3 windowStart k c r es st)
  then show ?case by simp
qed


lemma distinct_map_of_self:
  "distinct (map fst st) \<Longrightarrow> \<forall>(k, v) \<in> set st. map_of st k = Some v"
  by auto

lemma in_memory_check_records:
  assumes d: "distinct (map fst (inMemoryStore rl))"
    and r: "checkInMemoryRateLimit env rl k ws now maxRequests = (rl1, Inr dec)"
  shows "storedRequests (inMemoryStore rl1) k =
           filter (\<lambda>t. t > ws) (storedRequests (inMemoryStore rl) k) @ [now] \<and>
         dec = request_decision ws now maxRequests
                 (Some (int (length (filter (\<lambda>t. t > ws) (storedRequests (inMemoryStore rl) k))) + 1))"
proof -
  obtain st1 where c: "cleanupInMemoryStore env ws (inMemoryStore rl) = (st1, None)"
    using r by (auto simp: checkInMemoryRateLimit_def split: prod.splits option.splits)
  have keep: "filter (\<lambda>t. t > ws) (storedRequests st1 k) =
              filter (\<lambda>t. t > ws) (storedRequests (inMemoryStore rl) k)"
  proof (cases "cleanupDraw env")
    case True
    then have "cleanup_loop ws (inMemoryStore rl) (inMemoryStore rl) = (st1, None)"
      using c by (simp add: cleanupInMemoryStore_def)
    then show ?thesis
      using cleanup_loop_keeps_valid [OF _ d distinct_map_of_self [OF d]] by blast
  next
    case False
    then show ?thesis using c by (simp add: cleanupInMemoryStore_def)
  qed
  show ?thesis
  proof (cases "map_of st1 k")
    case None
    then show ?thesis
      using r c keep
      by (auto simp: checkInMemoryRateLimit_def Let_def storedRequests_def update_conv add.commute
          split: option.splits store_value.splits)
  next
    case (Some v)
    then show ?thesis
      using r c keep
      by (cases v)
         (auto simp: checkInMemoryRateLimit_def Let_def storedRequests_def update_conv add.commute
          split: option.splits store_value.splits)
  qed
qed

text \<open>
  Claim C5, as the code has it. A request check records the current request on every
  call, admitted or not. With the local map (keys distinct, as in a \<open>Map\<close>) a check
  that ends without an internal error leaves under the key the timestamps that were
  still inside the window followed by \<open>now\<close>, and it admits exactly when their number
  plus one is within the limit; so a rejected attempt is stored too and counts against
  the following windows. With the shared store the pipeline that is sent always contains
  the \<open>zAdd\<close> of the current request and the local map is left alone; when the pipeline
  is answered, the decision is computed from the count that the check reads out of the
  reply: the call admits exactly when that is a number \<open>n\<close> with \<open>n + 1\<close> within the
  limit, and rejects when the reply holds no number there.
\<close>

theorem request_check_always_records:
  "(\<not> redisClient rl \<longrightarrow> distinct (map fst (inMemoryStore rl)) \<longrightarrow>
      checkRateLimit_try env now rl k windowMs maxRequests = (rl1, Inr dec) \<longrightarrow>
        checkRateLimit env now rl k windowMs maxRequests = (rl1, dec) \<and>
        storedRequests (inMemoryStore rl1) k =
          filter (\<lambda>t. t > now - windowMs) (storedRequests (inMemoryStore rl) k) @ [now] \<and>
        (allowed dec \<longleftrightarrow>
           int (length (filter (\<lambda>t. t > now - windowMs) (storedRequests (inMemoryStore rl) k))) + 1
             \<le> maxRequests)) \<and>
   (redisClient rl \<longrightarrow>
      redisLog (fst (checkRateLimit env now rl k windowMs maxRequests)) =
        redisLog rl @ [ZRemRangeByScore k 0 (now - windowMs), ZCard k,
                       ZAdd k now (randomText env), Expire k (ceil_div windowMs 1000)] \<and>
      inMemoryStore (fst (checkRateLimit env now rl k windowMs maxRequests)) = inMemoryStore rl \<and>
      (execReply env = Inr reply \<longrightarrow>
         snd (checkRateLimit env now rl k windowMs maxRequests) =
           request_decision (now - windowMs) now maxRequests
             (case reply of None \<Rightarrow> None | Some n \<Rightarrow> Some (n + 1)) \<and>
         (allowed (snd (checkRateLimit env now rl k windowMs maxRequests)) \<longleftrightarrow>
            (case reply of None \<Rightarrow> False | Some n \<Rightarrow> n + 1 \<le> maxRequests))))"
proof (intro conjI impI)
  assume m: "\<not> redisClient rl" and d: "distinct (map fst (inMemoryStore rl))"
    and r: "checkRateLimit_try env now rl k windowMs maxRequests = (rl1, Inr dec)"
  show "checkRateLimit env now rl k windowMs maxRequests = (rl1, dec)"
    using r by (simp add: checkRateLimit_def)
  have r': "checkInMemoryRateLimit env rl k (now - windowMs) now maxRequests = (rl1, Inr dec)"
    using r m by (simp add: checkRateLimit_try_def)
  show "storedRequests (inMemoryStore rl1) k =
          filter (\<lambda>t. t > now - windowMs) (storedRequests (inMemoryStore rl) k) @ [now]"
    using in_memory_check_records [OF d r'] by simp
  show "allowed dec \<longleftrightarrow>
           int (length (filter (\<lambda>t. t > now - windowMs) (storedRequests (inMemoryStore rl) k))) + 1
             \<le> maxRequests"
    using in_memory_check_records [OF d r'] by (simp add: request_decision_def)
next
  assume "redisClient rl"
  then show "redisLog (fst (checkRateLimit env now rl k windowMs maxRequests)) =
        redisLog rl @ [ZRemRangeByScore k 0 (now - windowMs), ZCard k,
                       ZAdd k now (randomText env), Expire k (ceil_div windowMs 1000)]"
    by (simp add: checkRateLimit_def checkRateLimit_try_def checkRedisRateLimit_def Let_def
        split: sum.splits)
next
  assume "redisClient rl"
  then show "inMemoryStore (fst (checkRateLimit env now rl k windowMs maxRequests)) =
               inMemoryStore rl"
    by (simp add: checkRateLimit_def checkRateLimit_try_def checkRedisRateLimit_def Let_def
        split: sum.splits)
next
  assume c: "redisClient rl" and r: "execReply env = Inr reply"
  show d: "snd (checkRateLimit env now rl k windowMs maxRequests) =
           request_decision (now - windowMs) now maxRequests
             (case reply of None \<Rightarrow> None | Some n \<Rightarrow> Some (n + 1))"
    using c r
    by (simp add: checkRateLimit_def checkRateLimit_try_def checkRedisRateLimit_def Let_def)
  show "allowed (snd (checkRateLimit env now rl k windowMs maxRequests)) \<longleftrightarrow>
            (case reply of None \<Rightarrow> False | Some n \<Rightarrow> n + 1 \<le> maxRequests)"
    unfolding d by (simp add: request_decision_def split: option.splits)
qed

text \<open>
  The claim as stated fails: here the limit is 1, the window is 15 minutes and of the two
  earlier requests only the one at 1699999999000 is inside the window; the call is
  rejected, and the timestamps stored afterwards are not the unexpired ones alone but
  those and \<open>now\<close>.
\<close>

theorem rejected_request_is_recorded:
  "\<not> allowed (snd (checkRateLimit local_env 1700000000000 busy_limiter ''chat:u1'' 900000 1)) \<and>
   storedRequests (inMemoryStore busy_limiter) ''chat:u1'' = [1699999000000, 1699999999000] \<and>
   storedRequests
     (inMemoryStore (fst (checkRateLimit local_env 1700000000000 busy_limiter ''chat:u1'' 900000 1)))
     ''chat:u1'' = [1699999999000, 1700000000000]"
  by (simp add: checkRateLimit_def checkRateLimit_try_def checkInMemoryRateLimit_def
      cleanupInMemoryStore_def local_env_def busy_limiter_def storedRequests_def
      request_decision_def Let_def)

theorem request_check_always_records_witness:
  "checkRateLimit local_env 1700000000000 busy_limiter ''chat:u1'' 900000 1 =
     (busy_limiter\<lparr>inMemoryStore := [(''chat:u1'', Requests [1699999999000, 1700000000000])]\<rparr>,
      request_decision 1699999100000 1700000000000 1 (Some 2)) \<and>
   \<not> allowed (request_decision 1699999100000 1700000000000 1 (Some 2)) \<and>
   redisLog (fst (checkRateLimit local_env 1700000000000 (busy_limiter\<lparr>redisClient := True\<rparr>)
                    ''chat:u1'' 900000 1)) =
     [ZRemRangeByScore ''chat:u1'' 0 1699999100000, ZCard ''chat:u1'',
      ZAdd ''chat:u1'' 1700000000000 ''0.25'', Expire ''chat:u1'' 900] \<and>
   execReply local_env = Inr (Some 1) \<and>
   \<not> allowed (snd (checkRateLimit local_env 1700000000000 (busy_limiter\<lparr>redisClient := True\<rparr>)
                      ''chat:u1'' 900000 1)) \<and>
   \<not> allowed (snd (checkRateLimit (local_env\<lparr>execReply := Inr None\<rparr>) 1700000000000
                      (busy_limiter\<lparr>redisClient := True\<rparr>) ''chat:u1'' 900000 5))"
proof -
  have t: "checkRateLimit_try local_env 1700000000000 busy_limiter ''chat:u1'' 900000 1 =
     (busy_limiter\<lparr>inMemoryStore := [(''chat:u1'', Requests [1699999999000, 1700000000000])]\<rparr>,
      Inr (request_decision 1699999100000 1700000000000 1 (Some 2)))"
    by (simp add: checkRateLimit_try_def checkInMemoryRateLimit_def
      cleanupInMemoryStore_def local_env_def busy_limiter_def Let_def)
  have m: "\<not> redisClient busy_limiter" by (simp add: busy_limiter_def)
  have d: "distinct (map fst (inMemoryStore busy_limiter))" by (simp add: busy_limiter_def)
  have s: "redisClient (busy_limiter\<lparr>redisClient := True\<rparr>)" by simp
  have c: "ceil_div 900000 1000 = 900" by (simp add: ceil_div_def)
  show ?thesis
    using m d t c
      request_check_always_records [of busy_limiter local_env 1700000000000 "''chat:u1''" 900000 1
        "busy_limiter\<lparr>inMemoryStore := [(''chat:u1'', Requests [1699999999000, 1700000000000])]\<rparr>"
        "request_decision 1699999100000 1700000000000 1 (Some 2)"]
      request_check_always_records [of "busy_limiter\<lparr>redisClient := True\<rparr>" local_env 1700000000000
        "''chat:u1''" 900000 1 _ _ "Some 1"]
      request_check_always_records [of "busy_limiter\<lparr>redisClient := True\<rparr>"
        "local_env\<lparr>execReply := Inr None\<rparr>" 1700000000000 "''chat:u1''" 900000 5 _ _ None]
    by (simp add: request_decision_def busy_limiter_def local_env_def)
qed

subsection \<open>Rate-limit rejection\<close>

lemma ceil_div_bounds:
  assumes "0 < m"
  shows "a \<le> m * ceil_div a m \<and> m * ceil_div a m < a + m"
proof -
  have "- a = ((- a) div m) * m + (- a) mod m" by simp
  moreover have "0 \<le> (- a) mod m" "(- a) mod m < m" using assms by simp_all
  ultimately have "((- a) div m) * m \<le> - a \<and> - a < ((- a) div m) * m + m" by linarith
  then show ?thesis by (simp add: ceil_div_def mult.commute)
qed

lemma rejected_decision_shape:
  assumes "checkRateLimit env now rl k w m = (rl1, dec)" and "\<not> allowed dec"
  shows "resetTime dec = Some (now + ((now - w) + (if m > 0 then ceil_div (now - w) m else 0)))"
  using assms
  by (auto simp: checkRateLimit_def checkRateLimit_try_def checkRedisRateLimit_def
      checkInMemoryRateLimit_def request_decision_def Let_def
      split: prod.splits sum.splits option.splits store_value.splits if_splits)

lemma chat_reset_valid:
  assumes "0 \<le> now" "now \<le> 4000000000000000"
  shows "validDate (now + ((now - 900000) + ceil_div (now - 900000) 50))"
proof -
  have "now - 900000 \<le> 50 * ceil_div (now - 900000) 50 \<and>
        50 * ceil_div (now - 900000) 50 < (now - 900000) + 50"
    by (rule ceil_div_bounds) simp
  then show ?thesis using assms unfolding validDate_def by linarith
qed

lemma chatRateLimit_rejects:
  assumes rej: "\<not> allowed (snd (checkRateLimit (limiterEnv env) (clock env) rl
                                 (''chat:'' @ req_userId req) 900000 50))"
    and lo: "0 \<le> clock env" and hi: "clock env \<le> 4000000000000000"
  shows "snd (chatRateLimit env rl req) =
           Reject
              \<lparr>status = 429,
               headers = [(''X-RateLimit-Limit'',
                           json_of_num (total (snd (checkRateLimit (limiterEnv env) (clock env) rl
                                 (''chat:'' @ req_userId req) 900000 50)))),
                          (''X-RateLimit-Remaining'',
                           json_of_num (remaining (snd (checkRateLimit (limiterEnv env) (clock env) rl
                                 (''chat:'' @ req_userId req) 900000 50)))),
                          (''X-RateLimit-Reset'',
                           JDate (clock env + ((clock env - 900000) + ceil_div (clock env - 900000) 50)))],
               body = JObj [(''error'', JStr ''Too Many Requests''),
                            (''message'', JStr ''Rate limit exceeded''),
                            (''retryAfter'',
                             JNum (ceil_div (clock env + ((clock env - 900000) + ceil_div (clock env - 900000) 50) - clock env) 1000))]\<rparr>"
proof -
  obtain rl1 dec where c: "checkRateLimit (limiterEnv env) (clock env) rl
                             (''chat:'' @ req_userId req) 900000 50 = (rl1, dec)"
    by (cases "checkRateLimit (limiterEnv env) (clock env) rl (''chat:'' @ req_userId req) 900000 50")
  have na: "\<not> allowed dec" using rej c by simp
  have rt: "resetTime dec = Some (clock env + ((clock env - 900000) + ceil_div (clock env - 900000) 50))"
    using rejected_decision_shape [OF c na] by simp
  have v: "validDate (clock env + ((clock env - 900000) + ceil_div (clock env - 900000) 50))"
    using chat_reset_valid [OF lo hi] .
  show ?thesis
    using c na rt v by (simp add: chatRateLimit_def createMiddleware_def Let_def)
qed

text \<open>
  Claim C8, as the code has it. When the per-user chat rate limit rejects a request
  (and the clock is a date of the first 120 thousand years of the epoch), both message
  endpoints answer HTTP 429 with the body \<open>{error: "Too Many Requests", message: "Rate limit
  exceeded", retryAfter}\<close>, where \<open>retryAfter\<close> is the number of seconds up to the
  reset time that the limiter computed. The response carries the three
  \<open>X-RateLimit\<close> headers and no \<open>Retry-After\<close> header: the delay is a field of the
  body only. The document store is not touched, so no user message is persisted.
\<close>

theorem rate_limit_rejection_response:
  assumes rej: "\<not> allowed (snd (checkRateLimit (limiterEnv env) (clock env) (limiterState srv)
                                 (''chat:'' @ req_userId req) 900000 50))"
    and lo: "0 \<le> clock env" and hi: "clock env \<le> 4000000000000000"
  shows "status (snd (chatMessageEndpoint env srv req)) = 429 \<and>
         body (snd (chatMessageEndpoint env srv req)) =
           JObj [(''error'', JStr ''Too Many Requests''),
                 (''message'', JStr ''Rate limit exceeded''),
                 (''retryAfter'',
                  JNum (ceil_div (clock env + ((clock env - 900000) + ceil_div (clock env - 900000) 50) - clock env) 1000))] \<and>
         map fst (headers (snd (chatMessageEndpoint env srv req))) =
           [''X-RateLimit-Limit'', ''X-RateLimit-Remaining'', ''X-RateLimit-Reset''] \<and>
         map_of (headers (snd (chatMessageEndpoint env srv req))) ''Retry-After'' = None \<and>
         store (fst (chatMessageEndpoint env srv req)) = store srv \<and>
         snd (chatMessageSimpleEndpoint env srv req) = snd (chatMessageEndpoint env srv req) \<and>
         store (fst (chatMessageSimpleEndpoint env srv req)) = store srv"
proof -
  have "snd (chatRateLimit env (limiterState srv) req) =
           Reject
              \<lparr>status = 429,
               headers = [(''X-RateLimit-Limit'',
                           json_of_num (total (snd (checkRateLimit (limiterEnv env) (clock env)
                                 (limiterState srv) (''chat:'' @ req_userId req) 900000 50)))),
                          (''X-RateLimit-Remaining'',
                           json_of_num (remaining (snd (checkRateLimit (limiterEnv env) (clock env)
                                 (limiterState srv) (''chat:'' @ req_userId req) 900000 50)))),
                          (''X-RateLimit-Reset'',
                           JDate (clock env + ((clock env - 900000) + ceil_div (clock env - 900000) 50)))],
               body = JObj [(''error'', JStr ''Too Many Requests''),
                            (''message'', JStr ''Rate limit exceeded''),
                            (''retryAfter'',
                             JNum (ceil_div (clock env + ((clock env - 900000) + ceil_div (clock env - 900000) 50) - clock env) 1000))]\<rparr>"
    using chatRateLimit_rejects [OF rej lo hi] .
  then show ?thesis
    by (cases "chatRateLimit env (limiterState srv) req")
       (simp add: chatMessageEndpoint_def chatMessageSimpleEndpoint_def)
qed

text \<open>
  The claim as stated fails: the user has 50 requests inside the window, the endpoint
  answers 429, and the response has no \<open>Retry-After\<close> header.
\<close>

theorem rate_limit_reply_has_no_retry_after_header:
  "status (snd (chatMessageEndpoint demo_env exhausted_server (demo_req ''Hello''))) = 429 \<and>
   map_of (headers (snd (chatMessageEndpoint demo_env exhausted_server (demo_req ''Hello''))))
     ''Retry-After'' = None"
  by code_simp

theorem rate_limit_rejection_response_witness:
  "status (snd (chatMessageEndpoint demo_env exhausted_server (demo_req ''Hello''))) = 429 \<and>
   body (snd (chatMessageEndpoint demo_env exhausted_server (demo_req ''Hello''))) =
     JObj [(''error'', JStr ''Too Many Requests''),
           (''message'', JStr ''Rate limit exceeded''),
           (''retryAfter'', JNum 1733999082)] \<and>
   messages (store (fst (chatMessageEndpoint demo_env exhausted_server (demo_req ''Hello'')))) = []"
proof -
  have rej: "\<not> allowed (snd (checkRateLimit (limiterEnv demo_env) (clock demo_env)
                (limiterState exhausted_server)
                (''chat:'' @ req_userId (demo_req ''Hello'')) 900000 50))"
    by code_simp
  have lo: "0 \<le> clock demo_env" by (simp add: demo_env_def)
  have hi: "clock demo_env \<le> 4000000000000000" by (simp add: demo_env_def)
  have n: "ceil_div (clock demo_env + ((clock demo_env - 900000)
                + ceil_div (clock demo_env - 900000) 50) - clock demo_env) 1000 = 1733999082"
    by (simp add: demo_env_def ceil_div_def)
  have s: "messages (store exhausted_server) = []"
    by (simp add: exhausted_server_def demo_db_def)
  show ?thesis
    using rate_limit_rejection_response [OF rej lo hi] n s by simp
qed

subsection \<open>Summarisation\<close>

lemma find_session_after_update:
  "find (\<lambda>s. sessionId s = sid \<and> isActive s) xs = Some s \<Longrightarrow>
   sessionId s' = sid \<Longrightarrow> isActive s' \<Longrightarrow>
   find (\<lambda>s. sessionId s = sid \<and> isActive s)
     (map (\<lambda>x. if sessionId x = sid then s' else x) xs) = Some s'"
  by (induction xs) (auto split: if_splits)

lemma findActiveSession_props:
  "findActiveSession d sid = Some s \<Longrightarrow> sessionId s = sid \<and> isActive s"
  unfolding findActiveSession_def by (auto dest: find_Some_iff [THEN iffD1])

lemma findActiveSession_updateSession:
  assumes "findActiveSession d sid = Some s" "sessionId s' = sid" "isActive s'"
  shows "findActiveSession (updateSession d sid (\<lambda>x. s')) sid = Some s'"
  using find_session_after_update [OF assms(1) [unfolded findActiveSession_def] assms(2,3)]
  by (simp add: findActiveSession_def updateSession_def)

lemma preSave_estimated:
  "md_tokenCount m = estimateTokens (m_content m) \<Longrightarrow> preSave m = m"
  by (auto simp: preSave_def estimateTokens_def)

text \<open>
  The summary document has no \<open>userId\<close>, so its creation is rejected, whatever the text:
  \<open>replaceWithSummary\<close> deletes and then throws.
\<close>

lemma replaceWithSummary_rejected:
  "\<exists>e. replaceWithSummary now d sid ids body1 =
     (d\<lparr>messages := filter (\<lambda>m. \<not> (m_sessionId m = sid \<and> m_id m \<in> set ids)) (messages d)\<rparr>,
      Inl e)"
  by (simp add: replaceWithSummary_def insertMessage_def validateMessageDoc_def
      missingPaths_def Let_def)

text \<open>
  Hence \<open>summarizeContext\<close> never reaches the update of the session: it returns nothing
  or \<open>null\<close>, and the store is either as before or without the candidates.
\<close>

lemma summarizeContext_cases:
  "summarizeContext env d sid = (d, SummaryNull) \<or>
   summarizeContext env d sid = (d, SummaryUndefined) \<or>
   summarizeContext env d sid =
     (d\<lparr>messages := filter (\<lambda>m. \<not> (m_sessionId m = sid \<and>
                           m_id m \<in> set (map m_id (messagesToSummarize env d sid))))
                         (messages d)\<rparr>, SummaryNull)"
proof (cases "findActiveSession d sid")
  case None
  then show ?thesis by (simp add: summarizeContext_def)
next
  case (Some session)
  show ?thesis
  proof (cases "length (messagesToSummarize env d sid) < 2")
    case True
    then show ?thesis by (simp add: summarizeContext_def Some)
  next
    case False
    show ?thesis
    proof (cases "summarizationProvider env")
      case (Inl e)
      then show ?thesis using False by (simp add: summarizeContext_def Some Let_def)
    next
      case (Inr provider)
      show ?thesis
      proof (cases "generateResponse provider
                      [(RUser, conversationTextOf (messagesToSummarize env d sid))]
                      (summaryPrompt env)")
        case (Inl e)
        then show ?thesis using False Inr by (simp add: summarizeContext_def Some Let_def)
      next
        case res: (Inr summaryResponse)
        obtain e where r: "replaceWithSummary (clock env) d sid
                       (map m_id (messagesToSummarize env d sid))
                       (r_text summaryResponse) =
                     (d\<lparr>messages := filter (\<lambda>m. \<not> (m_sessionId m = sid \<and>
                            m_id m \<in> set (map m_id (messagesToSummarize env d sid))))
                          (messages d)\<rparr>, Inl e)"
          using replaceWithSummary_rejected by blast
        show ?thesis using False Inr res r by (simp add: summarizeContext_def Some Let_def)
      qed
    qed
  qed
qed

lemma summarizeContext_never_updates:
  "sessions (fst (summarizeContext env d sid)) = sessions d"
  "snd (summarizeContext env d sid) \<noteq> SummaryStats a b c"
  "set (messages (fst (summarizeContext env d sid))) \<subseteq> set (messages d)"
  "nextId (fst (summarizeContext env d sid)) = nextId d"
  "users (fst (summarizeContext env d sid)) = users d"
  using summarizeContext_cases [of env d sid] by auto


lemma summary_candidates:
  "messagesToSummarize demo_env summary_db sid1 =
     [old_message 1 RUser ''What is a monad?'',
      old_message 2 RAssistant ''A monad is a monoid in the category of endofunctors.'']"
  by (simp add: messagesToSummarize_def getMessagesForSummarization_def sessionMessages_def
      summaryCutoff_def summary_db_def old_message_def demo_env_def)

lemma summary_provider: "summarizationProvider demo_env = Inr remote_adapter"
  by (simp add: summarizationProvider_def getProvider_def demo_env_def)

text \<open>
  Claim C9 does not hold of the code. The session of the scenario holds two messages of
  the user and the assistant, an hour old, and a total of 100 tokens in 2 messages; the
  summarisation provider is registered and answers \<open>Hi there\<close> with a usage of 15
  tokens. So \<open>summarizeContext\<close> finds two candidates and the provider succeeds. It
  then deletes both messages, the creation of the summary is rejected for its missing
  \<open>userId\<close>, the error is caught and the result is \<open>null\<close>: no summary message is
  stored, and the session keeps its total of 100, its count of 2 and no summary time or
  hash, while the store holds no message of it any more.
\<close>

theorem summary_creation_is_rejected:
  "findActiveSession summary_db sid1 = Some summary_session \<and>
   messagesToSummarize demo_env summary_db sid1 =
     [old_message 1 RUser ''What is a monad?'',
      old_message 2 RAssistant ''A monad is a monoid in the category of endofunctors.''] \<and>
   summarizationProvider demo_env = Inr remote_adapter \<and>
   generateResponse remote_adapter
     [(RUser, conversationTextOf (messagesToSummarize demo_env summary_db sid1))]
     (summaryPrompt demo_env) = Inr remote_result \<and>
   r_text remote_result = ''Hi there'' \<and>
   summarizeContext demo_env summary_db sid1 = (summary_db\<lparr>messages := []\<rparr>, SummaryNull) \<and>
   sessions summary_db = [summary_session] \<and>
   ctx_totalTokens summary_session = 100 \<and> ctx_messageCount summary_session = 2 \<and>
   ctx_lastSummarizedAt summary_session = None \<and> ctx_summaryHash summary_session = None"
proof -
  have g: "\<And>ms sp. generateResponse remote_adapter ms sp = Inr remote_result"
    by (simp add: remote_adapter_def)
  have f: "findActiveSession summary_db sid1 = Some summary_session"
    by (simp add: findActiveSession_def summary_db_def summary_session_def demo_session_def)
  have s: "summarizeContext demo_env summary_db sid1 = (summary_db\<lparr>messages := []\<rparr>, SummaryNull)"
    unfolding summarizeContext_def f summary_candidates
    by (simp add: Let_def summary_provider g replaceWithSummary_def insertMessage_def
        validateMessageDoc_def missingPaths_def old_message_def summary_db_def)
  have v: "sessions summary_db = [summary_session]"
    "ctx_totalTokens summary_session = 100" "ctx_messageCount summary_session = 2"
    "ctx_lastSummarizedAt summary_session = None" "ctx_summaryHash summary_session = None"
    by (simp_all add: summary_db_def summary_session_def demo_session_def)
  show ?thesis
    using f summary_candidates summary_provider g s v by (simp add: remote_result_def)
qed

subsection \<open>Usage counters of the user\<close>

text \<open>No step of a turn other than the final charge writes to the users.\<close>

lemma users_updateSession [simp]: "users (updateSession d sid f) = users d"
  by (simp add: updateSession_def)

lemma users_insertMessage: "insertMessage now d m = Inr (d1, m1) \<Longrightarrow> users d1 = users d"
  by (auto simp: insertMessage_def Let_def split: option.splits)


lemma users_addMessageToContext:
  "addMessageToContext env d sid r body1 md = Inr (d1, m1) \<Longrightarrow> users d1 = users d"
  by (auto simp: addMessageToContext_def Let_def summarizeContext_never_updates
      split: option.splits sum.splits prod.splits if_splits dest: users_insertMessage)


lemma users_saveRouteSession [simp]: "users (saveRouteSession env d sess tokens) = users d"
  by (simp add: saveRouteSession_def Let_def)

lemma users_simpleFallback [simp]:
  "users (fst (simpleFallback env hdrs prep d req e)) = users d"
  by (auto simp: simpleFallback_def Let_def split: sum.splits dest: users_addMessageToContext)
















subsection \<open>Session total against the stored messages\<close>

text \<open>
  The context manager keeps the invariant of the data model: when it adds a message and
  no summarisation is due, the sum of the token counts of the session's messages and the
  total of the session grow by the same amount, the token count of the new message.
\<close>

lemma sessionTokenSum_updateSession [simp]:
  "sessionTokenSum (updateSession d sid f) sid' = sessionTokenSum d sid'"
  by (simp add: sessionTokenSum_def sessionMessages_def updateSession_def)

lemma context_manager_keeps_invariant:
  assumes f: "findActiveSession d sid = Some s"
    and a: "addMessageToContext env d sid r msg md = Inr (d1, m)"
    and below: "ctx_totalTokens s + md_tokenCount m \<le> summarizationThreshold env"
  shows "sessionTokenSum d1 sid = sessionTokenSum d sid + md_tokenCount m \<and>
         findActiveSession d1 sid =
           Some (s\<lparr>ctx_totalTokens := ctx_totalTokens s + md_tokenCount m,
                   ctx_messageCount := ctx_messageCount s + 1,
                   lastActivityAt := clock env\<rparr>)"
proof -
  let ?tc = "(case mi_tokenCount md of None \<Rightarrow> estimateTokens msg
             | Some n \<Rightarrow> if n = 0 then estimateTokens msg else n)"
  let ?m0 = "\<lparr>m_id = 0, m_sessionId = sid, m_userId = Some (s_userId s), m_role = r,
                  m_content = msg, md_provider = mi_provider md, md_model = mi_model md,
                  md_tokenCount = ?tc, md_usage = mi_usage md,
                  md_responseTime = mi_responseTime md, md_isStreaming = False,
                  md_streamingComplete = True, m_status = Completed, m_error = None,
                  createdAt = clock env\<rparr>"
  have ps: "preSave ?m0 = ?m0"
    by (auto simp: preSave_def estimateTokens_def split: option.splits)
  obtain d0 where ins: "insertMessage (clock env) d ?m0 = Inr (d0, m)"
    using a f
    by (auto simp: addMessageToContext_def Let_def split: sum.splits if_splits)
  have m: "m = ?m0\<lparr>m_id := nextId d, createdAt := clock env\<rparr>"
    and d0: "d0 = d\<lparr>messages := messages d @ [m], nextId := nextId d + 1\<rparr>"
    using ins ps by (auto simp: insertMessage_def Let_def split: option.splits)
  have tc: "md_tokenCount m = ?tc" using m by simp
  let ?s1 = "updateContext (clock env) ?tc 1 s"
  have nosum: "\<not> needsSummarization (summarizationThreshold env) ?s1"
    using below tc by (simp add: needsSummarization_def updateContext_def)
  have d1: "d1 = updateSession d0 sid (\<lambda>x. ?s1)"
    using a f ins nosum by (simp add: addMessageToContext_def Let_def)
  have sum: "sessionTokenSum d1 sid = sessionTokenSum d sid + md_tokenCount m"
    unfolding d1 using d0 m
    by (simp add: sessionTokenSum_def sessionMessages_def updateSession_def)
  have props: "sessionId ?s1 = sid \<and> isActive ?s1"
    using f unfolding findActiveSession_def
    by (auto simp: updateContext_def dest: find_Some_iff [THEN iffD1])
  have "find (\<lambda>x. sessionId x = sid \<and> isActive x) (sessions d) = Some s"
    using f by (simp add: findActiveSession_def)
  then have "findActiveSession d1 sid = Some ?s1"
    unfolding d1 using props d0
    by (simp add: findActiveSession_def updateSession_def find_session_after_update)
  then show ?thesis using sum tc by (simp add: updateContext_def)
qed

text \<open>
  Claim C1. After a successful turn the total of the session is to equal the sum of the
  token counts of its stored messages. The route without streaming breaks this. On a
  fresh session (total 0, no messages), with an adapter that answers \<open>Hi there\<close> and
  reports a usage of 15 tokens, the route answers 200 and stores two messages of 2 tokens
  each, sum 4, and leaves a session total of 15: after the context manager has counted
  both messages, the route adds the usage total to its own copy of the session, read
  before the turn, and saves that.
\<close>

theorem session_total_diverges_from_message_sum:
  "map ctx_totalTokens (sessions (store (demo_server ''openai''))) = [0] \<and>
   sessionTokenSum (store (demo_server ''openai'')) sid1 = 0 \<and>
   status (snd (chatMessageSimpleEndpoint demo_env (demo_server ''openai'') (demo_req ''Hello'')))
     = 200 \<and>
   map md_tokenCount (messages (store (fst
     (chatMessageSimpleEndpoint demo_env (demo_server ''openai'') (demo_req ''Hello''))))) = [2, 2] \<and>
   sessionTokenSum (store (fst
     (chatMessageSimpleEndpoint demo_env (demo_server ''openai'') (demo_req ''Hello'')))) sid1 = 4 \<and>
   map ctx_totalTokens (sessions (store (fst
     (chatMessageSimpleEndpoint demo_env (demo_server ''openai'') (demo_req ''Hello''))))) = [15] \<and>
   map m_role (messages (store (fst
     (chatMessageSimpleEndpoint demo_env (demo_server ''openai'') (demo_req ''Hello''))))) =
     [RUser, RAssistant] \<and>
   map m_sessionId (messages (store (fst
     (chatMessageSimpleEndpoint demo_env (demo_server ''openai'') (demo_req ''Hello''))))) =
     [sid1, sid1]"
  by code_simp

subsection \<open>The screen on a repeated injection line\<close>









lemma storeOk_updateSession [simp]: "storeOk (updateSession d sid f) = storeOk d"
  by (simp add: storeOk_def updateSession_def)

lemma messages_updateSession [simp]: "messages (updateSession d sid f) = messages d"
  by (simp add: updateSession_def)

lemma nextId_updateSession [simp]: "nextId (updateSession d sid f) = nextId d"
  by (simp add: updateSession_def)









text \<open>
  The statuses of the streaming route, and where 400 comes from.
\<close>

lemma postMessage_status:
  "status (snd (postMessage env hdrs d req)) \<in> {200, 400, 404, 429, 500}"
  by (auto simp: postMessage_def admitTurn_def internalError_def Let_def
      split: sum.splits option.splits prod.splits if_splits stream_outcome.splits)








end
